theory Spec2Isabelle
  imports Complex_Main "HOL-Library.Multiset"
begin

section \<open>Python values, errors and arithmetic\<close>

text \<open>
  The program is \<^verbatim>\<open>src/python/predict.py\<close> (Python 3: it pickles with protocol 4).
  Python integers are unbounded and are modelled as \<open>int\<close>.  Python floats are
  modelled as exact rationals (\<open>rat\<close>): the model computes the exact quotient where
  Python computes the correctly rounded double, so it describes the program on the
  range where doubles are exact (integers below \<open>2 ^ 53\<close> in absolute value).
  An attribute of the configuration object holds a dynamically typed value.
\<close>

datatype pyval = PBool bool | PInt int | PFloat rat | PNone

datatype py_error = AttributeError | TypeError | ZeroDivisionError | IndexError | ValueError

text \<open>Sequencing of fallible steps: the first exception raised is the result.\<close>

definition then_do :: "py_error + 'a \<Rightarrow> ('a \<Rightarrow> py_error + 'b) \<Rightarrow> py_error + 'b" where
  "then_do m f = (case m of Inl e \<Rightarrow> Inl e | Inr x \<Rightarrow> f x)"

text \<open>
  The configuration object: its \<^verbatim>\<open>id\<close> attribute (the identity accumulator), the
  attributes holding plain values, addressed by name as \<^verbatim>\<open>getattr\<close> does, and the
  \<^verbatim>\<open>min\<close> and \<^verbatim>\<open>max\<close> attributes written by the sample builders (floats that
  may be infinite, see below).
\<close>

datatype npfloat = Fin rat | PosInf | NegInf | NaN

record Config =
  id_attr :: rat
  attrs :: "string \<rightharpoonup> pyval"
  min_attr :: npfloat
  max_attr :: npfloat

definition getattr :: "Config \<Rightarrow> string \<Rightarrow> py_error + pyval" where
  "getattr c prop = (case attrs c prop of None \<Rightarrow> Inl AttributeError | Some v \<Rightarrow> Inr v)"

text \<open>The number a value stands for in arithmetic; \<^verbatim>\<open>bool\<close> is a subclass of
  \<^verbatim>\<open>int\<close>, \<^verbatim>\<open>None\<close> raises \<^verbatim>\<open>TypeError\<close>.\<close>

fun num_of :: "pyval \<Rightarrow> py_error + rat" where
  "num_of (PBool b) = Inr (if b then 1 else 0)"
| "num_of (PInt i) = Inr (of_int i)"
| "num_of (PFloat r) = Inr r"
| "num_of PNone = Inl TypeError"

text \<open>\<^verbatim>\<open>a / b\<close>: true division; operand types are checked before the divisor.\<close>

definition py_truediv :: "pyval \<Rightarrow> pyval \<Rightarrow> py_error + rat" where
  "py_truediv a b =
     then_do (num_of a) (\<lambda>x. then_do (num_of b) (\<lambda>y.
       if y = 0 then Inl ZeroDivisionError else Inr (x / y)))"

definition py_mul :: "pyval \<Rightarrow> pyval \<Rightarrow> py_error + rat" where
  "py_mul a b = then_do (num_of a) (\<lambda>x. then_do (num_of b) (\<lambda>y. Inr (x * y)))"

text \<open>\<^verbatim>\<open>int(x)\<close> truncates towards zero.\<close>

definition py_int :: "rat \<Rightarrow> int" where
  "py_int x = (if 0 \<le> x then \<lfloor>x\<rfloor> else \<lceil>x\<rceil>)"

text \<open>\<^verbatim>\<open>round(x)\<close> of Python 3 rounds to the nearest integer, a tie to the even one.\<close>

definition py_round :: "rat \<Rightarrow> int" where
  "py_round x =
     (let f = \<lfloor>x\<rfloor>; d = x - of_int f
      in if d < 1 / 2 then f else if 1 / 2 < d then f + 1
         else if even f then f else f + 1)"

section \<open>Getters\<close>


text \<open>
  \<^verbatim>\<open>
  def getRefactoredData(data):
      data_x1 = data/config.cat
      data_x2 = int(data_x1)
      data_x3 = data_x2*config.cat
      return int(data_x3)
  \<close>
\<close>

definition getRefactoredData :: "Config \<Rightarrow> pyval \<Rightarrow> py_error + int" where
  "getRefactoredData config data =
     then_do (getattr config ''cat'') (\<lambda>cat.
     then_do (py_truediv data cat) (\<lambda>data_x1.
     then_do (getattr config ''cat'') (\<lambda>cat'.
     then_do (py_mul (PInt (py_int data_x1)) cat') (\<lambda>data_x3.
       Inr (py_int data_x3)))))"

section \<open>ConfigIdentity and ConfigStore: \<^verbatim>\<open>getTemporaryData\<close>\<close>

text \<open>
  \<^verbatim>\<open>
  def getTemporaryData():
      for file in glob.glob(os.path.join(config.p_date_dir_path, '*')):
          conf = getConfigFile(file)
          config.id = 1
          conf.id = 1
          importance = ["use_random_in_feat", "nfilt", "nfeat", "nfft", "frame_rate",
                        "sample_length", "audio_length", "audio_startpoint",
                        "validation_data_mult", "cat",  "max_class_files"]
          for prop in importance:
              try:
                  if getattr(conf, prop) == False:
                      conf.id = conf.id * len(prop)
                  elif getattr(conf, prop) == True:
                      conf.id = conf.id / len(prop)
                  else:
                      conf.id = conf.id + getattr(conf, prop)*10
                  if getattr(config, prop) == False:
                      config.id = config.id * len(prop)
                  elif getattr(config, prop) == True:
                      config.id = config.id / len(prop)
                  else:
                      config.id = config.id + getattr(config, prop)*10
                  conf.id = round(conf.id)+1
                  config.id = round(config.id)+1
              except:
                  config.id = config.id * len(prop)
                  conf.id = conf.id * len(prop)
          if conf.id == config.id:
              print(" - Loaded config with id: {}".format(conf.id))
              return conf
      print(" - Your config id: {}".format(config.id))
      return None
  \<close>
\<close>

definition importance :: "string list" where
  "importance = [''use_random_in_feat'', ''nfilt'', ''nfeat'', ''nfft'', ''frame_rate'',
     ''sample_length'', ''audio_length'', ''audio_startpoint'', ''validation_data_mult'',
     ''cat'', ''max_class_files'']"

text \<open>\<^verbatim>\<open>v == False\<close> and \<^verbatim>\<open>v == True\<close>: Python compares a number with a boolean
  by value, so \<^verbatim>\<open>0 == False\<close> and \<^verbatim>\<open>1 == True\<close> hold.\<close>

fun py_eq :: "pyval \<Rightarrow> bool \<Rightarrow> bool" where
  "py_eq (PBool b) c = (b = c)"
| "py_eq (PInt i) c = (i = (if c then 1 else 0))"
| "py_eq (PFloat r) c = (r = (if c then 1 else 0))"
| "py_eq PNone c = False"

text \<open>The value one \<^verbatim>\<open>if/elif/else\<close> block assigns to \<^verbatim>\<open>x.id\<close> (the same block is
  written once for \<^verbatim>\<open>conf\<close> and once for \<^verbatim>\<open>config\<close>), or the exception it raises.\<close>

definition new_id :: "Config \<Rightarrow> string \<Rightarrow> py_error + rat" where
  "new_id x prop =
     then_do (getattr x prop) (\<lambda>v.
       if py_eq v False then Inr (id_attr x * of_nat (length prop))
       else if py_eq v True then
         (if length prop = 0 then Inl ZeroDivisionError
          else Inr (id_attr x / of_nat (length prop)))
       else then_do (py_mul v (PInt 10)) (\<lambda>t. Inr (id_attr x + t)))"

text \<open>One iteration of the loop over \<^verbatim>\<open>importance\<close>.  The \<^verbatim>\<open>try\<close> block updates
  \<^verbatim>\<open>conf.id\<close> before it evaluates the field of \<^verbatim>\<open>config\<close>, and the bare \<^verbatim>\<open>except\<close>
  catches every exception.\<close>

definition identity_step :: "string \<Rightarrow> Config \<times> Config \<Rightarrow> Config \<times> Config" where
  "identity_step prop cc =
     (case cc of (conf, config) \<Rightarrow>
       (case new_id conf prop of
          Inl e \<Rightarrow> (conf\<lparr>id_attr := id_attr conf * of_nat (length prop)\<rparr>,
                    config\<lparr>id_attr := id_attr config * of_nat (length prop)\<rparr>)
        | Inr i \<Rightarrow>
           (case new_id config prop of
              Inl e \<Rightarrow> (conf\<lparr>id_attr := i * of_nat (length prop)\<rparr>,
                        config\<lparr>id_attr := id_attr config * of_nat (length prop)\<rparr>)
            | Inr j \<Rightarrow> (conf\<lparr>id_attr := of_int (py_round i) + 1\<rparr>,
                        config\<lparr>id_attr := of_int (py_round j) + 1\<rparr>))))"

text \<open>The body of the outer loop up to the comparison: both accumulators are set to 1,
  then the fields are processed in list order.\<close>

definition compare_ids :: "Config \<Rightarrow> Config \<Rightarrow> Config \<times> Config" where
  "compare_ids conf config =
     foldl (\<lambda>cc prop. identity_step prop cc) (conf\<lparr>id_attr := 1\<rparr>, config\<lparr>id_attr := 1\<rparr>)
       importance"

text \<open>What the program prints, as far as the claims need it: the two messages of
  \<^verbatim>\<open>getTemporaryData\<close>, the warning of \<^verbatim>\<open>calculateConfigData\<close> (attribute, given
  value, expected value), its closing summary, and the \<^verbatim>\<open>ERROR\<close> line of the sample
  builders.\<close>

datatype message =
    LoadedConfig rat
  | YourConfigId rat
  | IsToLarge string pyval int
  | Summary pyval pyval int int int int pyval pyval pyval
  | ERROR

text \<open>The snapshot directory is the list of the unpickled configurations, in the order
  \<^verbatim>\<open>glob\<close> lists the files.  The result is the returned value, the global \<^verbatim>\<open>config\<close>
  as the call leaves it, and what was printed.\<close>

fun getTemporaryData :: "Config list \<Rightarrow> Config \<Rightarrow> Config option \<times> Config \<times> message list" where
  "getTemporaryData [] config = (None, config, [YourConfigId (id_attr config)])"
| "getTemporaryData (file # files) config =
     (case compare_ids file config of (conf, config') \<Rightarrow>
        if id_attr conf = id_attr config'
        then (Some conf, config', [LoadedConfig (id_attr conf)])
        else getTemporaryData files config')"

subsection \<open>The identity as the specification words it\<close>

text \<open>
  The specification describes the identity of one configuration on its own: start at 1;
  per field, in list order, multiply by the length of the name when the value is false,
  divide by it when the value is true, add ten times the value otherwise, then round and
  add 1; when the field cannot be evaluated, multiply by the length of the name.
  \<open>failing c prop\<close> says that evaluating the field raises: the attribute is missing or
  holds \<^verbatim>\<open>None\<close>.
\<close>

definition failing :: "Config \<Rightarrow> string \<Rightarrow> bool" where
  "failing c prop = (case attrs c prop of None \<Rightarrow> True | Some v \<Rightarrow> v = PNone)"

definition ConfigIdentity_step :: "Config \<Rightarrow> rat \<Rightarrow> string \<Rightarrow> rat" where
  "ConfigIdentity_step c acc prop =
     (case attrs c prop of
        None \<Rightarrow> acc * of_nat (length prop)
      | Some v \<Rightarrow>
          if py_eq v False then of_int (py_round (acc * of_nat (length prop))) + 1
          else if py_eq v True then of_int (py_round (acc / of_nat (length prop))) + 1
          else (case num_of v of
                  Inl e \<Rightarrow> acc * of_nat (length prop)
                | Inr x \<Rightarrow> of_int (py_round (acc + x * 10)) + 1))"

definition ConfigIdentity :: "string list \<Rightarrow> Config \<Rightarrow> rat" where
  "ConfigIdentity props c = foldl (ConfigIdentity_step c) 1 props"

text \<open>
  The identity of the current configuration when it is computed in lockstep with a
  candidate: a field that cannot be evaluated on the candidate counts as a failure for
  both sides, whatever the current configuration holds for it.
\<close>

definition CurrentIdentity_step :: "Config \<Rightarrow> Config \<Rightarrow> rat \<Rightarrow> string \<Rightarrow> rat" where
  "CurrentIdentity_step conf config acc prop =
     (if failing conf prop then acc * of_nat (length prop)
      else ConfigIdentity_step config acc prop)"

definition CurrentIdentity :: "string list \<Rightarrow> Config \<Rightarrow> Config \<Rightarrow> rat" where
  "CurrentIdentity props conf config = foldl (CurrentIdentity_step conf config) 1 props"

section \<open>DatasetSizer: \<^verbatim>\<open>calculateConfigData\<close>\<close>

text \<open>
  The class table \<^verbatim>\<open>df\<close> is the list of its rows (file name, label) in table order;
  \<^verbatim>\<open>df[df.label == c].index\<close> is the list of the file names labelled \<open>c\<close>.
  \<^verbatim>\<open>classes\<close> and \<^verbatim>\<open>df\<close> are globals of the module and are passed explicitly.
\<close>

type_synonym class_table = "(string \<times> string) list"

definition class_files :: "class_table \<Rightarrow> string \<Rightarrow> string list" where
  "class_files df c = map fst (filter (\<lambda>row. snd row = c) df)"

definition sys_maxsize :: int where
  "sys_maxsize = 9223372036854775807"









subsection \<open>The validation policy as the specification words it\<close>




section \<open>SampleBuilder\<close>

subsection \<open>Floats of numpy, lists and slices\<close>

text \<open>
  Feature values are numpy floats: a finite value (an exact rational in the model), an
  infinity or NaN.  Signed zeros are not distinguished.  Comparison with NaN is false;
  \<^verbatim>\<open>x / 0\<close> is NaN for \<open>x = 0\<close> and an infinity otherwise (numpy warns and continues).
\<close>

fun np_less :: "npfloat \<Rightarrow> npfloat \<Rightarrow> bool" where
  "np_less (Fin a) (Fin b) = (a < b)"
| "np_less (Fin a) PosInf = True"
| "np_less NegInf (Fin b) = True"
| "np_less NegInf PosInf = True"
| "np_less a b = False"

fun np_negative :: "npfloat \<Rightarrow> npfloat" where
  "np_negative (Fin a) = Fin (- a)"
| "np_negative PosInf = NegInf"
| "np_negative NegInf = PosInf"
| "np_negative NaN = NaN"

fun np_add :: "npfloat \<Rightarrow> npfloat \<Rightarrow> npfloat" where
  "np_add (Fin a) (Fin b) = Fin (a + b)"
| "np_add NaN b = NaN"
| "np_add a NaN = NaN"
| "np_add PosInf NegInf = NaN"
| "np_add NegInf PosInf = NaN"
| "np_add PosInf b = PosInf"
| "np_add NegInf b = NegInf"
| "np_add a PosInf = PosInf"
| "np_add a NegInf = NegInf"

definition np_subtract :: "npfloat \<Rightarrow> npfloat \<Rightarrow> npfloat" where
  "np_subtract a b = np_add a (np_negative b)"

fun np_divide :: "npfloat \<Rightarrow> npfloat \<Rightarrow> npfloat" where
  "np_divide (Fin a) (Fin b) =
     (if b \<noteq> 0 then Fin (a / b) else if a = 0 then NaN else if 0 < a then PosInf else NegInf)"
| "np_divide NaN b = NaN"
| "np_divide a NaN = NaN"
| "np_divide (Fin a) b = Fin 0"
| "np_divide PosInf (Fin b) = (if 0 \<le> b then PosInf else NegInf)"
| "np_divide NegInf (Fin b) = (if 0 \<le> b then NegInf else PosInf)"
| "np_divide a b = NaN"

text \<open>The builtins \<^verbatim>\<open>min(a, b)\<close> and \<^verbatim>\<open>max(a, b)\<close> return \<open>a\<close> unless \<open>b\<close> is strictly
  smaller, respectively larger.\<close>

definition py_min :: "npfloat \<Rightarrow> npfloat \<Rightarrow> npfloat" where
  "py_min a b = (if np_less b a then b else a)"

definition py_max :: "npfloat \<Rightarrow> npfloat \<Rightarrow> npfloat" where
  "py_max a b = (if np_less a b then b else a)"

type_synonym matrix = "rat list list"

text \<open>\<^verbatim>\<open>np.amin\<close> and \<^verbatim>\<open>np.amax\<close> of a matrix; they raise on a matrix with no
  element.\<close>

definition np_amin :: "matrix \<Rightarrow> py_error + rat" where
  "np_amin m = (case concat m of [] \<Rightarrow> Inl ValueError | v # vs \<Rightarrow> Inr (fold min vs v))"

definition np_amax :: "matrix \<Rightarrow> py_error + rat" where
  "np_amax m = (case concat m of [] \<Rightarrow> Inl ValueError | v # vs \<Rightarrow> Inr (fold max vs v))"

text \<open>\<^verbatim>\<open>xs[a:b]\<close>: a negative bound counts from the end, bounds are clipped.\<close>

definition py_slice :: "'a list \<Rightarrow> int \<Rightarrow> int \<Rightarrow> 'a list" where
  "py_slice xs a b =
     (let n = int (length xs);
          lo = (if a < 0 then max 0 (a + n) else min a n);
          hi = (if b < 0 then max 0 (b + n) else min b n)
      in take (nat (hi - lo)) (drop (nat lo) xs))"

text \<open>\<^verbatim>\<open>xs.index(x)\<close> and \<^verbatim>\<open>xs[i]\<close> for \<open>i \<ge> 0\<close>.\<close>

fun list_index :: "'a list \<Rightarrow> 'a \<Rightarrow> py_error + nat" where
  "list_index [] x = Inl ValueError"
| "list_index (a # as) x = (if a = x then Inr 0 else then_do (list_index as x) (\<lambda>i. Inr (Suc i)))"

definition list_get :: "'a list \<Rightarrow> nat \<Rightarrow> py_error + 'a" where
  "list_get xs i = (if i < length xs then Inr (xs ! i) else Inl IndexError)"

text \<open>A value used as an integer (a bound of \<^verbatim>\<open>range\<close>, a slice bound).\<close>

fun py_index :: "pyval \<Rightarrow> py_error + int" where
  "py_index (PInt i) = Inr i"
| "py_index (PBool b) = Inr (if b then 1 else 0)"
| "py_index v = Inl TypeError"

text \<open>A \<^verbatim>\<open>for\<close> loop whose body may raise; \<^verbatim>\<open>for i in range(n)\<close> runs over
  \<open>[0..<n]\<close>.\<close>

fun for_each :: "('a \<Rightarrow> 's \<Rightarrow> py_error + 's) \<Rightarrow> 'a list \<Rightarrow> 's \<Rightarrow> py_error + 's" where
  "for_each body [] s = Inr s"
| "for_each body (x # xs) s = then_do (body x s) (for_each body xs)"

subsection \<open>The collaborators and the state of a build\<close>

text \<open>
  The functions the sample builders call and the specification treats as black boxes:
  \<^verbatim>\<open>wavfile.read\<close> of a file of the corpus (sample rate and waveform), the feature
  transform \<^verbatim>\<open>mfcc(sample, rate, numcep=config.nfeat, nfilt=config.nfilt,
  nfft=config.nfft).T\<close>, and the random generator of numpy, given by the raw value of
  its \<open>k\<close>-th draw.
\<close>

record externals =
  wavfile_read :: "string \<Rightarrow> nat \<times> int list"
  mfcc_T :: "Config \<Rightarrow> int list \<Rightarrow> nat \<Rightarrow> matrix"
  np_random :: "nat \<Rightarrow> nat"

text \<open>The local variables of a builder: the lists \<^verbatim>\<open>X\<close> and \<^verbatim>\<open>y\<close>, \<^verbatim>\<open>_min\<close> and
  \<^verbatim>\<open>_max\<close>, the progress bar, what was printed, and the number of random draws made.\<close>

record builder =
  X_acc :: "matrix list"
  y_acc :: "nat list"
  min_acc :: npfloat
  max_acc :: npfloat
  pbar1 :: nat
  printed :: "message list"
  draws :: nat

definition new_builder :: builder where
  "new_builder = \<lparr>X_acc = [], y_acc = [], min_acc = PosInf, max_acc = NegInf, pbar1 = 0,
     printed = [], draws = 0\<rparr>"

definition random_choice :: "externals \<Rightarrow> 'a list \<Rightarrow> builder \<Rightarrow> py_error + 'a \<times> builder" where
  "random_choice ext xs st =
     (if xs = [] then Inl ValueError
      else Inr (xs ! (np_random ext (draws st) mod length xs), st\<lparr>draws := Suc (draws st)\<rparr>))"

definition random_randint :: "externals \<Rightarrow> int \<Rightarrow> builder \<Rightarrow> py_error + int \<times> builder" where
  "random_randint ext high st =
     (if high \<le> 0 then Inl ValueError
      else Inr (int (np_random ext (draws st)) mod high, st\<lparr>draws := Suc (draws st)\<rparr>))"

text \<open>
  Both builders turn a window into a sample with the same lines:
  \<^verbatim>\<open>
      X_sample = mfcc(sample, rate,
                      numcep=config.nfeat, nfilt=config.nfilt, nfft=config.nfft).T
      _min = min(np.amin(X_sample), _min)
      _max = max(np.amax(X_sample), _max)
      X.append(X_sample)
      y.append(classes.index(class_index))
  \<close>
\<close>

definition add_sample ::
  "externals \<Rightarrow> Config \<Rightarrow> string list \<Rightarrow> string \<Rightarrow> int list \<Rightarrow> nat \<Rightarrow> builder
     \<Rightarrow> py_error + builder" where
  "add_sample ext config classes class_index sample rate st =
     (let X_sample = mfcc_T ext config sample rate in
      then_do (np_amin X_sample) (\<lambda>lo.
      then_do (np_amax X_sample) (\<lambda>hi.
      then_do (list_index classes class_index) (\<lambda>i.
        Inr (st\<lparr>X_acc := X_acc st @ [X_sample], y_acc := y_acc st @ [i],
                 min_acc := py_min (Fin lo) (min_acc st),
                 max_acc := py_max (Fin hi) (max_acc st)\<rparr>)))))"

text \<open>
  Both builders end with the same lines:
  \<^verbatim>\<open>
      config.min = _min
      config.max = _max
      X, y = np.array(X), np.array(y)
      X = (X - _min) / (_max - _min)
      X = X.reshape(X.shape[0], X.shape[1],  X.shape[2], 1)
      y = to_categorical(y, num_classes=config.cat)
      pbar1.close()
      return X, y
  \<close>
  \<^verbatim>\<open>np.array\<close> builds a three-dimensional array only from a non-empty list of matrices
  of one shape; otherwise the reshape (or \<^verbatim>\<open>np.array\<close> itself) raises.
  \<^verbatim>\<open>to_categorical\<close> of Keras takes the number of classes from the labels when
  \<^verbatim>\<open>num_classes\<close> is falsy, and raises when a label is not below the number of classes.
\<close>

type_synonym tensor = "npfloat list list list list"

definition shape :: "matrix \<Rightarrow> nat \<times> nat list" where
  "shape m = (length m, map length m)"

definition np_array :: "matrix list \<Rightarrow> py_error + matrix list" where
  "np_array X =
     (case X of [] \<Rightarrow> Inl IndexError
      | m # ms \<Rightarrow> if list_all (\<lambda>m'. shape m' = shape m) ms
                      \<and> list_all (\<lambda>row. length row = length (hd m)) m
                  then Inr X else Inl ValueError)"

definition normalise :: "npfloat \<Rightarrow> npfloat \<Rightarrow> matrix list \<Rightarrow> tensor" where
  "normalise lo hi X =
     map (map (map (\<lambda>v. [np_divide (np_subtract (Fin v) lo) (np_subtract hi lo)]))) X"

definition one_hot :: "nat \<Rightarrow> nat \<Rightarrow> nat list" where
  "one_hot num_classes i = map (\<lambda>j. if j = i then 1 else 0) [0..<num_classes]"

definition to_categorical :: "nat list \<Rightarrow> pyval \<Rightarrow> py_error + nat list list" where
  "to_categorical y num_classes =
     then_do
       (case num_classes of
          PInt c \<Rightarrow> if c = 0 then (if y = [] then Inl ValueError else Inr (Suc (fold max y 0)))
                    else if c < 0 then Inl ValueError else Inr (nat c)
        | PBool b \<Rightarrow> if b then Inr 1
                     else (if y = [] then Inl ValueError else Inr (Suc (fold max y 0)))
        | PFloat r \<Rightarrow> if r = 0 then (if y = [] then Inl ValueError else Inr (Suc (fold max y 0)))
                      else Inl TypeError
        | PNone \<Rightarrow> if y = [] then Inl ValueError else Inr (Suc (fold max y 0)))
       (\<lambda>n. if list_all (\<lambda>i. i < n) y then Inr (map (one_hot n) y) else Inl IndexError)"

text \<open>The result of a builder: the tensors \<^verbatim>\<open>X\<close> and \<^verbatim>\<open>y\<close>, the global
  configuration with \<^verbatim>\<open>min\<close> and \<^verbatim>\<open>max\<close> stored, and what was printed.\<close>

definition finish :: "Config \<Rightarrow> builder \<Rightarrow> py_error + tensor \<times> nat list list \<times> Config \<times> message list" where
  "finish config st =
     (let config' = config\<lparr>min_attr := min_acc st, max_attr := max_acc st\<rparr> in
      then_do (np_array (X_acc st)) (\<lambda>X.
      then_do (getattr config' ''cat'') (\<lambda>cat.
      then_do (to_categorical (y_acc st) cat) (\<lambda>y.
        Inr (normalise (min_acc st) (max_acc st) X, y, config', printed st)))))"

subsection \<open>Random mode\<close>

text \<open>
  \<^verbatim>\<open>
  def getRandomSamples(datasets):
      X = []
      y = []
      datasets = getRefactoredData(datasets)
      _min, _max = float('inf'), -float('inf')
      pbar1 = tqdm(total=datasets, position=0)
      for _ in range(int(datasets/3)):
          for class_index in classes:
              file = np.random.choice(df[df.label == class_index].index)
              rate, wav = wavfile.read(os.path.join(
                  config.refactored_audio_dir, file))
              if wav.shape[0] == 0:
                  print('ERROR')
                  continue
              rand_index = np.random.randint(0, wav.shape[0]-config.step)
              sample = wav[rand_index:rand_index+config.step]
              (the sample lines)
              pbar1.update(1)
      (the closing lines)
  \<close>
\<close>

definition random_sample ::
  "externals \<Rightarrow> Config \<Rightarrow> string list \<Rightarrow> class_table \<Rightarrow> string \<Rightarrow> builder
     \<Rightarrow> py_error + builder" where
  "random_sample ext config classes df class_index st =
     then_do (random_choice ext (class_files df class_index) st) (\<lambda>(file, st1).
       case wavfile_read ext file of (rate, wav) \<Rightarrow>
         if length wav = 0 then Inr (st1\<lparr>printed := printed st1 @ [ERROR]\<rparr>)
         else
           then_do (getattr config ''step'') (\<lambda>stepv.
           then_do (py_index stepv) (\<lambda>step.
           then_do (random_randint ext (int (length wav) - step) st1) (\<lambda>(rand_index, st2).
           then_do (add_sample ext config classes class_index
                      (py_slice wav rand_index (rand_index + step)) rate st2) (\<lambda>st3.
             Inr (st3\<lparr>pbar1 := Suc (pbar1 st3)\<rparr>))))))"

definition getRandomSamples ::
  "externals \<Rightarrow> Config \<Rightarrow> string list \<Rightarrow> class_table \<Rightarrow> pyval
     \<Rightarrow> py_error + tensor \<times> nat list list \<times> Config \<times> message list" where
  "getRandomSamples ext config classes df datasets =
     then_do (getRefactoredData config datasets) (\<lambda>datasets'.
     then_do (for_each (\<lambda>round. for_each (random_sample ext config classes df) classes)
                [0..<nat (py_int (of_int datasets' / 3))] new_builder)
       (finish config))"

subsection \<open>Fixed mode\<close>

text \<open>
  \<^verbatim>\<open>
  def getFixedSamples(datasets):
      X = []
      y = []
      datasets = getRefactoredData(datasets)
      files = int((datasets / config.max_tack_samples) / config.cat)
      _min, _max = float('inf'), -float('inf')
      pbar1 = tqdm(total=datasets, position=0)
      for file_index in range(files):
          for class_index in classes:
              file = df[df.label == class_index].index[file_index]
              rate, wav = wavfile.read(os.path.join(
                  config.refactored_audio_dir, file))
              if wav.shape[0] == 0:
                  print('ERROR')
                  continue
              for audio_index in range(config.max_tack_samples):
                  pbar1.update(1)
                  sample = wav[audio_index:audio_index+config.step]
                  (the sample lines)
      (the closing lines)
  \<close>
\<close>

definition fixed_window ::
  "externals \<Rightarrow> Config \<Rightarrow> string list \<Rightarrow> string \<Rightarrow> int list \<Rightarrow> nat \<Rightarrow> nat \<Rightarrow> builder
     \<Rightarrow> py_error + builder" where
  "fixed_window ext config classes class_index wav rate audio_index st =
     then_do (getattr config ''step'') (\<lambda>stepv.
     then_do (py_index stepv) (\<lambda>step.
       add_sample ext config classes class_index
         (py_slice wav (int audio_index) (int audio_index + step)) rate
         (st\<lparr>pbar1 := Suc (pbar1 st)\<rparr>)))"

definition fixed_file ::
  "externals \<Rightarrow> Config \<Rightarrow> string list \<Rightarrow> class_table \<Rightarrow> nat \<Rightarrow> string \<Rightarrow> builder
     \<Rightarrow> py_error + builder" where
  "fixed_file ext config classes df file_index class_index st =
     then_do (list_get (class_files df class_index) file_index) (\<lambda>file.
       case wavfile_read ext file of (rate, wav) \<Rightarrow>
         if length wav = 0 then Inr (st\<lparr>printed := printed st @ [ERROR]\<rparr>)
         else
           then_do (getattr config ''max_tack_samples'') (\<lambda>tv.
           then_do (py_index tv) (\<lambda>t.
             for_each (fixed_window ext config classes class_index wav rate) [0..<nat t] st)))"

definition getFixedSamples ::
  "externals \<Rightarrow> Config \<Rightarrow> string list \<Rightarrow> class_table \<Rightarrow> pyval
     \<Rightarrow> py_error + tensor \<times> nat list list \<times> Config \<times> message list" where
  "getFixedSamples ext config classes df datasets =
     then_do (getRefactoredData config datasets) (\<lambda>datasets'.
     then_do (getattr config ''max_tack_samples'') (\<lambda>tv.
     then_do (py_truediv (PInt datasets') tv) (\<lambda>per_track.
     then_do (getattr config ''cat'') (\<lambda>cat.
     then_do (py_truediv (PFloat per_track) cat) (\<lambda>q.
     then_do (for_each (\<lambda>file_index. for_each (fixed_file ext config classes df file_index) classes)
                [0..<nat (py_int q)] new_builder)
       (finish config))))))"

section \<open>PredictionRunner\<close>

text \<open>
  \<^verbatim>\<open>
  def buildPredctions(datasets, last_config):
      y_pred = []
      print(" -> building {} fixed prediction samples".format(datasets))
      y_prob, y_true = getFixedSamples(datasets)
      for x in y_prob:
          x = x.reshape(1, x.shape[0], x.shape[1], 1)
          y_hat = model.predict(x)
          y_pred.append(np.mean(y_hat))
      return y_true, y_pred, y_prob
  \<close>
  \<^verbatim>\<open>model.predict\<close> is the classifier: from a batch of feature matrices to one
  probability vector per item.  \<^verbatim>\<open>np.mean\<close> is the sum of all entries divided by their
  number (NaN for no entry).  An item \<open>x\<close> of \<^verbatim>\<open>y_prob\<close> reshaped to a batch of one
  is \<open>[x]\<close>.  The progress message is left out.
\<close>

definition np_mean :: "npfloat list list \<Rightarrow> npfloat" where
  "np_mean a = np_divide (fold (\<lambda>v s. np_add s v) (concat a) (Fin 0))
                 (Fin (of_nat (length (concat a))))"

definition buildPredctions ::
  "externals \<Rightarrow> (tensor \<Rightarrow> npfloat list list) \<Rightarrow> Config \<Rightarrow> string list \<Rightarrow> class_table \<Rightarrow> pyval
     \<Rightarrow> py_error + nat list list \<times> npfloat list \<times> tensor" where
  "buildPredctions ext model_predict config classes df datasets =
     then_do (getFixedSamples ext config classes df datasets) (\<lambda>(y_prob, y_true, config', out).
       Inr (y_true, map (\<lambda>x. np_mean (model_predict [x])) y_prob, y_prob))"

subsection \<open>What a build keeps track of\<close>

text \<open>The feature values of a list of matrices, and of a tensor.\<close>

definition values_of :: "matrix list \<Rightarrow> rat list" where
  "values_of X = concat (concat X)"

definition tensor_values :: "tensor \<Rightarrow> npfloat list" where
  "tensor_values X = concat (concat (concat X))"

text \<open>The loop invariant of both builders: one label per matrix, every label the index
  of a class, no matrix without element, and \<^verbatim>\<open>_min\<close> and \<^verbatim>\<open>_max\<close> the least and the
  greatest of all values collected so far (the infinities before the first sample).\<close>

definition tracked :: "string list \<Rightarrow> builder \<Rightarrow> bool" where
  "tracked classes st =
     (length (y_acc st) = length (X_acc st)
      \<and> list_all (\<lambda>i. i < length classes) (y_acc st)
      \<and> list_all (\<lambda>m. concat m \<noteq> []) (X_acc st)
      \<and> (if X_acc st = [] then min_acc st = PosInf \<and> max_acc st = NegInf
         else min_acc st = Fin (Min (set (values_of (X_acc st))))
            \<and> max_acc st = Fin (Max (set (values_of (X_acc st))))))"

subsection \<open>Inputs on which the builders return\<close>





section \<open>Training: \<^verbatim>\<open>fitModel\<close>\<close>

text \<open>
  \<^verbatim>\<open>
  def fitModel(model, X, y, val_X, val_y):
      try:
          if config.acc_temp == None:
              config.acc_temp = []
              config.val_acc_temp = []
              config.loss_temp = []
              config.val_loss_temp = []
      except:
          config.acc_temp = []
          config.val_acc_temp = []
          config.loss_temp = []
          config.val_loss_temp = []
      if config.calls is False:
          config.calls = sys.maxsize
      checkpoint = None
      if config.use_checkpoints:
          path = getLastModelFilename()
          try:
              model = load_model(path)
              print(" -> Continue prediction")
          except:
              pass
      for index in range(config.calls):
          (two progress messages)
          drawStatistics(config.acc_temp, config.val_acc_temp,
                         config.loss_temp, config.val_loss_temp)
          print(" -> Shuffle model")
          X, y = shuffle(X, y, random_state=0)
          val_X, val_y = shuffle(X, y, random_state=0)
          checkpoint = model.fit(X, y, epochs=config.epochs, validation_data=(
              val_X, val_y), shuffle=True, batch_size=config.batch_size, verbose=1)
          config.acc_temp = config.acc_temp + checkpoint.history['acc']
          config.val_acc_temp = config.val_acc_temp + \
              checkpoint.history['val_acc']
          config.loss_temp = config.loss_temp + checkpoint.history['loss']
          config.val_loss_temp = config.val_loss_temp + \
              checkpoint.history['val_loss']
          if config.use_evaluate is True:
              print(" - Evaluate...")
              score = model.evaluate(X, y, batch_size=config.batch_size)
              print(" => [Score] = {}".format(score))
          model.save(os.path.join(config.model_date_dir_path,
                                  str(abs(config.id)) + '.model'))
          saveConfig(config)
  \<close>
  The four curves kept on the configuration are one record; \<open>None\<close> stands for the
  attribute \<^verbatim>\<open>acc_temp\<close> being absent or \<^verbatim>\<open>None\<close>.  The same record is the history one
  call of \<^verbatim>\<open>model.fit\<close> returns.  A tensor is the list of its rows; \<^verbatim>\<open>shuffle\<close> of
  scikit-learn permutes the rows of all its arguments by one permutation, which for the
  fixed \<^verbatim>\<open>random_state=0\<close> depends on the number of rows only, and raises when the
  arguments differ in length.  The calls of the collaborators are recorded in order;
  printing is left out.
\<close>

record history =
  acc_temp :: "rat list"
  val_acc_temp :: "rat list"
  loss_temp :: "rat list"
  val_loss_temp :: "rat list"

datatype ('x, 'y) call =
    DrawStatistics history
  | ModelFit "'x list" "'y list" "'x list" "'y list"
  | ModelEvaluate "'x list" "'y list"
  | ModelSave
  | SaveConfig

record ('m, 'x, 'y) keras =
  load_model :: "string \<Rightarrow> 'm option"
  model_fit :: "'m \<Rightarrow> 'x list \<Rightarrow> 'y list \<Rightarrow> 'x list \<Rightarrow> 'y list \<Rightarrow> pyval \<Rightarrow> pyval \<Rightarrow> 'm \<times> history"
  shuffle_order :: "nat \<Rightarrow> nat list"

definition shuffle :: "('m, 'x, 'y) keras \<Rightarrow> 'a list \<Rightarrow> 'b list \<Rightarrow> py_error + 'a list \<times> 'b list" where
  "shuffle k a b =
     (if length a \<noteq> length b then Inl ValueError
      else Inr (map ((!) a) (shuffle_order k (length a)), map ((!) b) (shuffle_order k (length a))))"

text \<open>The truth value of a value in a condition.\<close>

fun py_truthy :: "pyval \<Rightarrow> bool" where
  "py_truthy (PBool b) = b"
| "py_truthy (PInt i) = (i \<noteq> 0)"
| "py_truthy (PFloat r) = (r \<noteq> 0)"
| "py_truthy PNone = False"

text \<open>
  \<^verbatim>\<open>
  def getLastModelFilename():
      for file in glob.glob(os.path.join(config.model_date_dir_path, '*')):
          if file == os.path.join(config.model_date_dir_path, str(abs(config.id))+'.model'):
              return file
  \<close>
  The directory listing and the path expected for the identity of the configuration are
  given.
\<close>

definition getLastModelFilename :: "string list \<Rightarrow> string \<Rightarrow> string option" where
  "getLastModelFilename files expected = find (\<lambda>file. file = expected) files"

text \<open>The variables of the training loop.\<close>

record ('m, 'x, 'y) fit_state =
  model_now :: 'm
  X_now :: "'x list"
  y_now :: "'y list"
  val_X_now :: "'x list"
  val_y_now :: "'y list"
  temps :: history
  trace :: "('x, 'y) call list"

definition fit_call ::
  "('m, 'x, 'y) keras \<Rightarrow> Config \<Rightarrow> nat \<Rightarrow> ('m, 'x, 'y) fit_state
     \<Rightarrow> py_error + ('m, 'x, 'y) fit_state" where
  "fit_call k config index st =
     then_do (shuffle k (X_now st) (y_now st)) (\<lambda>(X, y).
     then_do (shuffle k X y) (\<lambda>(val_X, val_y).
     then_do (getattr config ''epochs'') (\<lambda>epochs.
     then_do (getattr config ''batch_size'') (\<lambda>batch_size.
       case model_fit k (model_now st) X y val_X val_y epochs batch_size of
         (model', checkpoint) \<Rightarrow>
           then_do (getattr config ''use_evaluate'') (\<lambda>use_evaluate.
             Inr (st\<lparr>model_now := model', X_now := X, y_now := y,
                      val_X_now := val_X, val_y_now := val_y,
                      temps := \<lparr>acc_temp = acc_temp (temps st) @ acc_temp checkpoint,
                                 val_acc_temp = val_acc_temp (temps st) @ val_acc_temp checkpoint,
                                 loss_temp = loss_temp (temps st) @ loss_temp checkpoint,
                                 val_loss_temp = val_loss_temp (temps st) @ val_loss_temp checkpoint\<rparr>,
                      trace := trace st @ [DrawStatistics (temps st), ModelFit X y val_X val_y]
                                 @ (if use_evaluate = PBool True then [ModelEvaluate X y] else [])
                                 @ [ModelSave, SaveConfig]\<rparr>))))))"

text \<open>The result of \<^verbatim>\<open>fitModel\<close>: the trained model, the curves left on the
  configuration, and the calls made.\<close>

definition fitModel ::
  "('m, 'x, 'y) keras \<Rightarrow> Config \<Rightarrow> history option \<Rightarrow> string list \<Rightarrow> string
     \<Rightarrow> 'm \<Rightarrow> 'x list \<Rightarrow> 'y list \<Rightarrow> 'x list \<Rightarrow> 'y list
     \<Rightarrow> py_error + 'm \<times> history \<times> ('x, 'y) call list" where
  "fitModel k config curves files expected model X y val_X val_y =
     (let temps0 = (case curves of
                      None \<Rightarrow> \<lparr>acc_temp = [], val_acc_temp = [], loss_temp = [], val_loss_temp = []\<rparr>
                    | Some h \<Rightarrow> h) in
      then_do (getattr config ''calls'') (\<lambda>callsv.
      then_do (if callsv = PBool False then Inr sys_maxsize else py_index callsv) (\<lambda>calls.
      then_do (getattr config ''use_checkpoints'') (\<lambda>use_checkpoints.
        let model' =
              (if py_truthy use_checkpoints
               then (case getLastModelFilename files expected of
                       None \<Rightarrow> model
                     | Some path \<Rightarrow> (case load_model k path of None \<Rightarrow> model | Some m \<Rightarrow> m))
               else model) in
        then_do (for_each (fit_call k config) [0..<nat calls]
                   \<lparr>model_now = model', X_now = X, y_now = y, val_X_now = val_X,
                    val_y_now = val_y, temps = temps0, trace = []\<rparr>)
          (\<lambda>st. Inr (model_now st, temps st, trace st))))))"

text \<open>That a call of \<^verbatim>\<open>model.fit\<close> validates on its own training data: the validation
  tensors are the training tensors shuffled once more, so they hold the same rows with
  the same labels.\<close>

fun validates_on_training :: "('m, 'x, 'y) keras \<Rightarrow> ('x, 'y) call \<Rightarrow> bool" where
  "validates_on_training k (ModelFit X y val_X val_y) =
     (shuffle k X y = Inr (val_X, val_y) \<and> mset (zip val_X val_y) = mset (zip X y))"
| "validates_on_training k other = True"

subsection \<open>Example configurations\<close>

text \<open>A configuration with the usual settings of the project (26 filters, 13 cepstral
  coefficients, a 512 point FFT at 16 kHz), the category and file counts left unset.\<close>

definition example_attrs :: "string \<rightharpoonup> pyval" where
  "example_attrs = [''use_random_in_feat'' \<mapsto> PBool True, ''nfilt'' \<mapsto> PInt 26,
     ''nfeat'' \<mapsto> PInt 13, ''nfft'' \<mapsto> PInt 512, ''frame_rate'' \<mapsto> PInt 16000,
     ''sample_length'' \<mapsto> PFloat (1 / 10), ''audio_length'' \<mapsto> PInt 30,
     ''audio_startpoint'' \<mapsto> PInt 0, ''validation_data_mult'' \<mapsto> PFloat (1 / 10),
     ''cat'' \<mapsto> PBool False, ''max_class_files'' \<mapsto> PBool False]"

definition example_config :: Config where
  "example_config = \<lparr>id_attr = 0, attrs = example_attrs, min_attr = PosInf, max_attr = NegInf\<rparr>"

text \<open>The same settings with 40 filters; with no \<^verbatim>\<open>nfilt\<close> attribute at all; and with
  an attribute outside the importance list and another stored identity.\<close>

definition example_config_nfilt40 :: Config where
  "example_config_nfilt40 = example_config\<lparr>attrs := example_attrs(''nfilt'' \<mapsto> PInt 40)\<rparr>"


definition example_config_epochs :: Config where
  "example_config_epochs =
     example_config\<lparr>id_attr := 77, attrs := example_attrs(''epochs'' \<mapsto> PInt 5)\<rparr>"

text \<open>A class table with three files of one class and two of another, and the example
  configuration asked for five files per class.\<close>

definition example_classes :: "string list" where
  "example_classes = [''blues'', ''rock'']"

definition example_df :: class_table where
  "example_df = [(''b1.wav'', ''blues''), (''r1.wav'', ''rock''), (''b2.wav'', ''blues''),
     (''r2.wav'', ''rock''), (''b3.wav'', ''blues'')]"


text \<open>A small corpus: every file holds eight samples at 16 kHz; the feature transform
  stands for one row of two coefficients (the first two samples of the window); the
  random generator returns 0, 1, 2, ...  The sampling configuration has two categories,
  two windows per file and windows of four samples.\<close>

definition example_ext :: externals where
  "example_ext = \<lparr>
     wavfile_read = (\<lambda>file. (16000, if file = ''r1.wav'' \<or> file = ''r2.wav''
                                      then [2, 7, 1, 8, 2, 8, 1, 8] else [3, 1, 4, 1, 5, 9, 2, 6])),
     mfcc_T = (\<lambda>config sample rate. [map of_int (take 2 sample)]),
     np_random = (\<lambda>k. k)\<rparr>"

definition example_sampling_config :: Config where
  "example_sampling_config =
     example_config\<lparr>attrs := example_attrs(''cat'' \<mapsto> PInt 2,
       ''max_tack_samples'' \<mapsto> PInt 2, ''step'' \<mapsto> PInt 4)\<rparr>"

text \<open>One class, one file, one window, and a feature transform with a single
  coefficient and a single frame (a one by one matrix).\<close>

definition example_ext_one_value :: externals where
  "example_ext_one_value = example_ext\<lparr>mfcc_T := (\<lambda>config sample rate. [[of_int (sum_list sample)]])\<rparr>"

definition example_single_config :: Config where
  "example_single_config =
     example_config\<lparr>attrs := example_attrs(''cat'' \<mapsto> PInt 1,
       ''max_tack_samples'' \<mapsto> PInt 1, ''step'' \<mapsto> PInt 4)\<rparr>"

text \<open>A classifier that answers every batch of one item with the same probabilities.\<close>

definition example_model :: "tensor \<Rightarrow> npfloat list list" where
  "example_model batch = [[Fin (1 / 4), Fin (3 / 4)]]"

text \<open>A training example: the order of the shuffle reverses the rows; no checkpoint is
  loaded; the model counts its fits; two calls, without evaluation.\<close>

definition example_keras :: "(nat, nat, nat) keras" where
  "example_keras = \<lparr>load_model = (\<lambda>path. None),
     model_fit = (\<lambda>m X y val_X val_y epochs batch_size.
        (Suc m, \<lparr>acc_temp = [1 / 2], val_acc_temp = [1 / 2], loss_temp = [1], val_loss_temp = [1]\<rparr>)),
     shuffle_order = (\<lambda>n. rev [0..<n])\<rparr>"

definition example_training_config :: Config where
  "example_training_config =
     example_config\<lparr>attrs := example_attrs(''calls'' \<mapsto> PInt 2, ''use_checkpoints'' \<mapsto> PBool False,
       ''epochs'' \<mapsto> PInt 1, ''batch_size'' \<mapsto> PInt 32, ''use_evaluate'' \<mapsto> PBool False)\<rparr>"

section \<open>Arithmetic facts\<close>






section \<open>DatasetSizer: the size of a dataset\<close>





section \<open>ConfigIdentity: the lockstep computation and the identity of one configuration\<close>

lemma new_id_evaluates:
  assumes "p \<noteq> []" and "\<not> failing x p"
  shows "\<exists>i. new_id x p = Inr i
           \<and> ConfigIdentity_step x (id_attr x) p = of_int (py_round i) + 1"
proof -
  from assms(2) obtain v where v: "attrs x p = Some v" "v \<noteq> PNone"
    by (auto simp: failing_def split: option.splits)
  show ?thesis
    using v assms(1)
    by (cases v)
       (simp_all add: new_id_def ConfigIdentity_step_def getattr_def then_do_def py_mul_def)
qed

lemma new_id_fails:
  assumes "failing x p"
  shows "(\<exists>e. new_id x p = Inl e)
           \<and> ConfigIdentity_step x acc p = acc * of_nat (length p)"
  using assms
  by (auto simp: failing_def new_id_def ConfigIdentity_step_def getattr_def then_do_def
        py_mul_def split: option.splits)

lemma failing_id_attr: "failing (x\<lparr>id_attr := i\<rparr>) p = failing x p"
  by (simp add: failing_def)

lemma ConfigIdentity_step_id_attr:
  "ConfigIdentity_step (x\<lparr>id_attr := i\<rparr>) = ConfigIdentity_step x"
  by (rule ext)+ (simp add: ConfigIdentity_step_def)

lemma CurrentIdentity_step_id_attr:
  "CurrentIdentity_step (x\<lparr>id_attr := i\<rparr>) (y\<lparr>id_attr := j\<rparr>) = CurrentIdentity_step x y"
  by (rule ext)+ (simp add: CurrentIdentity_step_def failing_id_attr ConfigIdentity_step_id_attr)

lemma identity_step_candidate:
  assumes "p \<noteq> []" and "failing b p \<longrightarrow> failing a p"
  shows "identity_step p (a, b) =
           (a\<lparr>id_attr := ConfigIdentity_step a (id_attr a) p\<rparr>,
            b\<lparr>id_attr := CurrentIdentity_step a b (id_attr b) p\<rparr>)"
proof (cases "failing a p")
  case True
  then show ?thesis
    using new_id_fails [of a p "id_attr a"]
    by (auto simp: identity_step_def CurrentIdentity_step_def)
next
  case False
  with assms have "\<not> failing b p" by simp
  with False show ?thesis
    using new_id_evaluates [OF assms(1), of a] new_id_evaluates [OF assms(1), of b]
    by (auto simp: identity_step_def CurrentIdentity_step_def)
qed

lemma steps_candidate:
  assumes "\<forall>p\<in>set props. p \<noteq> [] \<and> (failing b p \<longrightarrow> failing a p)"
  shows "foldl (\<lambda>cc prop. identity_step prop cc) (a, b) props =
           (a\<lparr>id_attr := foldl (ConfigIdentity_step a) (id_attr a) props\<rparr>,
            b\<lparr>id_attr := foldl (CurrentIdentity_step a b) (id_attr b) props\<rparr>)"
  using assms
proof (induction props arbitrary: a b)
  case Nil
  then show ?case by simp
next
  case (Cons p props)
  then show ?case
    by (simp add: identity_step_candidate failing_id_attr ConfigIdentity_step_id_attr
          CurrentIdentity_step_id_attr)
qed

lemma importance_nonempty: "\<forall>p\<in>set importance. p \<noteq> []"
  by (simp add: importance_def)

lemma compare_ids_candidate:
  assumes "\<forall>p\<in>set importance. failing config p \<longrightarrow> failing conf p"
  shows "compare_ids conf config =
           (conf\<lparr>id_attr := ConfigIdentity importance conf\<rparr>,
            config\<lparr>id_attr := CurrentIdentity importance conf config\<rparr>)"
proof -
  have "\<forall>p\<in>set importance. p \<noteq> []
          \<and> (failing (config\<lparr>id_attr := 1\<rparr>) p \<longrightarrow> failing (conf\<lparr>id_attr := 1\<rparr>) p)"
    using assms importance_nonempty by (simp add: failing_id_attr)
  then show ?thesis
    unfolding compare_ids_def ConfigIdentity_def CurrentIdentity_def
    by (simp add: steps_candidate ConfigIdentity_step_id_attr CurrentIdentity_step_id_attr)
qed

lemma CurrentIdentity_same_failing:
  assumes "\<forall>p\<in>set props. failing conf p \<longrightarrow> failing config p"
  shows "CurrentIdentity props conf config = ConfigIdentity props config"
proof -
  have "CurrentIdentity_step conf config acc p = ConfigIdentity_step config acc p"
    if "p \<in> set props" for acc p
    using that assms new_id_fails [of config p acc]
    by (auto simp: CurrentIdentity_step_def)
  then show ?thesis
    unfolding CurrentIdentity_def ConfigIdentity_def by (intro foldl_cong) simp_all
qed

lemma compare_ids_same_failing:
  assumes "\<forall>p\<in>set importance. failing conf p = failing config p"
  shows "compare_ids conf config =
           (conf\<lparr>id_attr := ConfigIdentity importance conf\<rparr>,
            config\<lparr>id_attr := ConfigIdentity importance config\<rparr>)"
proof -
  have "compare_ids conf config =
           (conf\<lparr>id_attr := ConfigIdentity importance conf\<rparr>,
            config\<lparr>id_attr := CurrentIdentity importance conf config\<rparr>)"
    using assms by (intro compare_ids_candidate) simp
  moreover have "CurrentIdentity importance conf config = ConfigIdentity importance config"
    using assms by (intro CurrentIdentity_same_failing) simp
  ultimately show ?thesis by simp
qed

lemma example_identity: "ConfigIdentity importance example_config = 119389111"
  by code_simp






text \<open>
  C3.  Two configurations that agree on every field of the importance list (the same
  value, or both without the attribute) end the lockstep computation with equal
  identities, whatever their other attributes and their stored identities are.
\<close>

theorem identity_depends_only_on_importance:
  assumes "\<forall>p\<in>set importance. attrs c1 p = attrs c2 p"
  shows "id_attr (fst (compare_ids c1 c2)) = id_attr (snd (compare_ids c1 c2))"
proof -
  have f: "\<forall>p\<in>set importance. failing c1 p = failing c2 p"
    using assms by (simp add: failing_def)
  have "foldl (ConfigIdentity_step c1) 1 importance = foldl (ConfigIdentity_step c2) 1 importance"
    using assms by (intro foldl_cong) (simp_all add: ConfigIdentity_step_def)
  then show ?thesis
    using compare_ids_same_failing [OF f] by (simp add: ConfigIdentity_def)
qed

theorem identity_depends_only_on_importance_witness:
  "id_attr (fst (compare_ids example_config_epochs example_config))
     = id_attr (snd (compare_ids example_config_epochs example_config))
   \<and> attrs example_config_epochs ''epochs'' \<noteq> attrs example_config ''epochs''
   \<and> id_attr example_config_epochs \<noteq> id_attr example_config"
proof -
  have h: "\<forall>p\<in>set importance. attrs example_config_epochs p = attrs example_config p"
    by code_simp
  have "attrs example_config_epochs ''epochs'' \<noteq> attrs example_config ''epochs''"
    by code_simp
  moreover have "id_attr example_config_epochs \<noteq> id_attr example_config"
    by code_simp
  ultimately show ?thesis
    using identity_depends_only_on_importance [OF h] by simp
qed

section \<open>ConfigStore: the scan of the snapshot directory\<close>

lemma identity_step_frame:
  "\<exists>i j. identity_step p (a, b) = (a\<lparr>id_attr := i\<rparr>, b\<lparr>id_attr := j\<rparr>)"
  by (auto simp: identity_step_def split: sum.splits)

lemma steps_frame:
  "\<exists>i j. foldl (\<lambda>cc prop. identity_step prop cc) (a, b) props
           = (a\<lparr>id_attr := i\<rparr>, b\<lparr>id_attr := j\<rparr>)"
proof (induction props arbitrary: a b)
  case Nil
  show ?case by (rule exI [of _ "id_attr a"], rule exI [of _ "id_attr b"]) simp
next
  case (Cons p props)
  obtain i j where s: "identity_step p (a, b) = (a\<lparr>id_attr := i\<rparr>, b\<lparr>id_attr := j\<rparr>)"
    using identity_step_frame by blast
  from Cons [of "a\<lparr>id_attr := i\<rparr>" "b\<lparr>id_attr := j\<rparr>"] show ?case
    by (auto simp: s)
qed

lemma compare_ids_frame:
  "\<exists>i j. compare_ids conf config = (conf\<lparr>id_attr := i\<rparr>, config\<lparr>id_attr := j\<rparr>)"
  using steps_frame [of "conf\<lparr>id_attr := 1\<rparr>" "config\<lparr>id_attr := 1\<rparr>" importance]
  by (auto simp: compare_ids_def)

lemma compare_ids_reset:
  "compare_ids (conf\<lparr>id_attr := i\<rparr>) (config\<lparr>id_attr := j\<rparr>) = compare_ids conf config"
  by (simp add: compare_ids_def)

lemma compare_ids_reset_config:
  "compare_ids conf (config\<lparr>id_attr := j\<rparr>) = compare_ids conf config"
  by (simp add: compare_ids_def)

lemma getTemporaryData_find:
  "getTemporaryData files config =
     (case find (\<lambda>f. id_attr (fst (compare_ids f config)) = id_attr (snd (compare_ids f config)))
             files of
        Some f \<Rightarrow> (Some (fst (compare_ids f config)), snd (compare_ids f config),
                   [LoadedConfig (id_attr (fst (compare_ids f config)))])
      | None \<Rightarrow>
          (if files = [] then (None, config, [YourConfigId (id_attr config)])
           else (None, snd (compare_ids (last files) config),
                 [YourConfigId (id_attr (snd (compare_ids (last files) config)))])))"
proof (induction files arbitrary: config)
  case Nil
  show ?case by simp
next
  case (Cons f files)
  obtain i j where c: "compare_ids f config = (f\<lparr>id_attr := i\<rparr>, config\<lparr>id_attr := j\<rparr>)"
    using compare_ids_frame by blast
  show ?case
  proof (cases "i = j")
    case True
    with c show ?thesis by simp
  next
    case False
    with c show ?thesis
      by (simp add: Cons.IH [of "config\<lparr>id_attr := j\<rparr>"] compare_ids_reset_config
            split: option.split)
  qed
qed

text \<open>
  C2 as stated fails on an empty snapshot directory (the first run): the loop body never
  runs, no identity is computed, and the message shows the \<^verbatim>\<open>id\<close> attribute as it was
  before the call (here 0), not the identity of the configuration (119389111).
\<close>

theorem getTemporaryData_empty_directory_counterexample:
  "getTemporaryData [] example_config = (None, example_config, [YourConfigId 0])
   \<and> ConfigIdentity importance example_config = 119389111"
  by (simp add: example_identity) (simp add: example_config_def)

text \<open>
  C2, amended.  Each comparison starts from accumulators reset to 1 on both sides: its
  outcome does not depend on the identities the two objects hold, so not on any earlier
  comparison.  The scan returns the first snapshot, in directory order, whose identity
  equals the identity of the current configuration computed against it, and prints it.
  When no snapshot matches it returns \<^verbatim>\<open>None\<close>; it then prints the identity of the current
  configuration computed against the last snapshot when the directory is not empty,
  and the unchanged \<^verbatim>\<open>id\<close> attribute when the directory is empty.
\<close>

theorem getTemporaryData_first_match:
  "compare_ids (conf\<lparr>id_attr := i\<rparr>) (config\<lparr>id_attr := j\<rparr>) = compare_ids conf config
   \<and> getTemporaryData files config =
     (case find (\<lambda>f. id_attr (fst (compare_ids f config)) = id_attr (snd (compare_ids f config)))
             files of
        Some f \<Rightarrow> (Some (fst (compare_ids f config)), snd (compare_ids f config),
                   [LoadedConfig (id_attr (fst (compare_ids f config)))])
      | None \<Rightarrow>
          (if files = [] then (None, config, [YourConfigId (id_attr config)])
           else (None, snd (compare_ids (last files) config),
                 [YourConfigId (id_attr (snd (compare_ids (last files) config)))])))"
  using compare_ids_reset getTemporaryData_find by blast

theorem getTemporaryData_first_match_witness:
  "map_option id_attr
     (fst (getTemporaryData [example_config_nfilt40, example_config_epochs, example_config]
        example_config)) = Some 119389111
   \<and> map_option (\<lambda>c. attrs c ''epochs'')
     (fst (getTemporaryData [example_config_nfilt40, example_config_epochs, example_config]
        example_config)) = Some (Some (PInt 5))
   \<and> snd (snd (getTemporaryData [example_config_nfilt40, example_config_epochs, example_config]
        example_config)) = [LoadedConfig 119389111]
   \<and> fst (getTemporaryData [example_config_nfilt40] example_config) = None
   \<and> snd (snd (getTemporaryData [example_config_nfilt40] example_config))
       = [YourConfigId 119389111]"
proof -
  note e = getTemporaryData_first_match [THEN conjunct2]
  show ?thesis
    unfolding e [of "[example_config_nfilt40, example_config_epochs, example_config]"]
      e [of "[example_config_nfilt40]"]
    by code_simp
qed

section \<open>DatasetSizer: validation of the overrides\<close>










section \<open>SampleBuilder: the loops and their invariant\<close>

lemma then_do_Inr: "then_do m f = Inr r \<longleftrightarrow> (\<exists>x. m = Inr x \<and> f x = Inr r)"
  by (cases m) (simp_all add: then_do_def)

lemma for_each_invariant:
  assumes "for_each body xs s = Inr s'" and "P s"
    and "\<And>x t t'. x \<in> set xs \<Longrightarrow> P t \<Longrightarrow> body x t = Inr t' \<Longrightarrow> P t'"
  shows "P s'"
  using assms
proof (induction xs arbitrary: s)
  case Nil
  then show ?case by simp
next
  case (Cons x xs)
  from Cons.prems(1) obtain t where t: "body x s = Inr t" "for_each body xs t = Inr s'"
    by (auto simp: then_do_Inr)
  have "P t"
    by (rule Cons.prems(3) [OF _ Cons.prems(2) t(1)]) simp
  then show ?case
    by (rule Cons.IH [OF t(2)]) (rule Cons.prems(3), simp_all)
qed


lemma np_amin_Min:
  assumes "np_amin m = Inr lo"
  shows "concat m \<noteq> [] \<and> lo = Min (set (concat m))"
proof (cases "concat m")
  case Nil
  with assms show ?thesis by (simp add: np_amin_def)
next
  case (Cons v vs)
  with assms have "lo = fold min vs v" by (simp add: np_amin_def)
  then show ?thesis unfolding Cons by (simp only: Min.set_eq_fold) simp
qed

lemma np_amax_Max:
  assumes "np_amax m = Inr hi"
  shows "concat m \<noteq> [] \<and> hi = Max (set (concat m))"
proof (cases "concat m")
  case Nil
  with assms show ?thesis by (simp add: np_amax_def)
next
  case (Cons v vs)
  with assms have "hi = fold max vs v" by (simp add: np_amax_def)
  then show ?thesis unfolding Cons by (simp only: Max.set_eq_fold) simp
qed

lemma list_index_less: "list_index xs x = Inr i \<Longrightarrow> i < length xs"
  by (induction xs arbitrary: i) (auto simp: then_do_Inr split: if_splits)

lemma add_sample_result:
  assumes "add_sample ext config classes c sample rate st = Inr st'"
  shows "\<exists>m i. concat m \<noteq> [] \<and> i < length classes
           \<and> st' = st\<lparr>X_acc := X_acc st @ [m], y_acc := y_acc st @ [i],
                        min_acc := py_min (Fin (Min (set (concat m)))) (min_acc st),
                        max_acc := py_max (Fin (Max (set (concat m)))) (max_acc st)\<rparr>"
proof -
  let ?m = "mfcc_T ext config sample rate"
  obtain lo where lo: "np_amin ?m = Inr lo"
    using assms by (cases "np_amin ?m") (simp_all add: add_sample_def then_do_def)
  obtain hi where hi: "np_amax ?m = Inr hi"
    using assms lo by (cases "np_amax ?m") (simp_all add: add_sample_def then_do_def)
  obtain i where i: "list_index classes c = Inr i"
    using assms lo hi by (cases "list_index classes c") (simp_all add: add_sample_def then_do_def)
  have st': "st' = st\<lparr>X_acc := X_acc st @ [?m], y_acc := y_acc st @ [i],
                   min_acc := py_min (Fin lo) (min_acc st),
                   max_acc := py_max (Fin hi) (max_acc st)\<rparr>"
    using assms lo hi i by (simp add: add_sample_def then_do_def)
  have "concat ?m \<noteq> []" "lo = Min (set (concat ?m))"
    using np_amin_Min [OF lo] by simp_all
  moreover have "hi = Max (set (concat ?m))"
    using np_amax_Max [OF hi] by simp
  moreover have "i < length classes"
    using list_index_less [OF i] .
  ultimately show ?thesis
    using st' by (intro exI [of _ ?m] exI [of _ i]) simp
qed

lemma py_min_Fin: "py_min (Fin c) (Fin a) = Fin (min a c)"
  by (simp add: py_min_def min_def)

lemma py_max_Fin: "py_max (Fin d) (Fin b) = Fin (max b d)"
  by (simp add: py_max_def max_def)

lemma values_of_nonempty:
  "X \<noteq> [] \<Longrightarrow> list_all (\<lambda>m. concat m \<noteq> []) X \<Longrightarrow> values_of X \<noteq> []"
  by (cases X) (simp_all add: values_of_def del: set_concat)

lemma tracked_add:
  assumes "tracked classes st" and "concat m \<noteq> []" and "i < length classes"
  shows "tracked classes (st\<lparr>X_acc := X_acc st @ [m], y_acc := y_acc st @ [i],
                        min_acc := py_min (Fin (Min (set (concat m)))) (min_acc st),
                        max_acc := py_max (Fin (Max (set (concat m)))) (max_acc st)\<rparr>)"
proof (cases "X_acc st = []")
  case True
  with assms show ?thesis
    by (simp add: tracked_def py_min_def py_max_def values_of_def del: set_concat)
next
  case False
  define V where "V = set (values_of (X_acc st))"
  define W where "W = set (concat m)"
  have "values_of (X_acc st) \<noteq> []"
    using assms(1) False by (intro values_of_nonempty) (simp_all add: tracked_def)
  then have ne: "V \<noteq> {}" "finite V" "W \<noteq> {}" "finite W"
    using assms(2) by (simp_all add: V_def W_def del: set_concat)
  have v: "set (values_of (X_acc st @ [m])) = V \<union> W"
    by (simp add: values_of_def V_def W_def del: set_concat)
  have mm: "Min (V \<union> W) = min (Min V) (Min W)" "Max (V \<union> W) = max (Max V) (Max W)"
    using ne by (simp_all add: Min_Un Max_Un)
  have acc: "min_acc st = Fin (Min V)" "max_acc st = Fin (Max V)"
    using assms(1) False by (simp_all add: tracked_def V_def)
  have "length (y_acc st @ [i]) = length (X_acc st @ [m])"
      "list_all (\<lambda>i. i < length classes) (y_acc st @ [i])"
      "list_all (\<lambda>m. concat m \<noteq> []) (X_acc st @ [m])"
    using assms by (simp_all add: tracked_def)
  then show ?thesis
    unfolding tracked_def W_def [symmetric]
    by (simp add: v mm acc py_min_Fin py_max_Fin del: set_concat)
qed

lemma tracked_frame [simp]:
  "tracked classes (st\<lparr>pbar1 := p\<rparr>) = tracked classes st"
  "tracked classes (st\<lparr>printed := out\<rparr>) = tracked classes st"
  "tracked classes (st\<lparr>draws := k\<rparr>) = tracked classes st"
  by (simp_all add: tracked_def)

lemma add_sample_tracked:
  assumes "add_sample ext config classes c sample rate st = Inr st'" and "tracked classes st"
  shows "tracked classes st'"
proof -
  from add_sample_result [OF assms(1)] obtain m i where
    r: "concat m \<noteq> []" "i < length classes"
       "st' = st\<lparr>X_acc := X_acc st @ [m], y_acc := y_acc st @ [i],
                        min_acc := py_min (Fin (Min (set (concat m)))) (min_acc st),
                        max_acc := py_max (Fin (Max (set (concat m)))) (max_acc st)\<rparr>"
    by blast
  show ?thesis
    unfolding r(3) by (rule tracked_add [OF assms(2) r(1,2)])
qed


lemma add_sample_tracked_draws:
  assumes "add_sample ext config classes c sample rate (st\<lparr>draws := k\<rparr>) = Inr st'"
    and "tracked classes st"
  shows "tracked classes st'"
  using add_sample_tracked [OF assms(1)] assms(2) by simp

lemma add_sample_tracked_pbar1:
  assumes "add_sample ext config classes c sample rate (st\<lparr>pbar1 := k\<rparr>) = Inr st'"
    and "tracked classes st"
  shows "tracked classes st'"
  using add_sample_tracked [OF assms(1)] assms(2) by simp

lemma random_sample_tracked:
  assumes "random_sample ext config classes df c st = Inr st'" and "tracked classes st"
  shows "tracked classes st'"
  using assms
  by (auto simp: random_sample_def random_choice_def random_randint_def then_do_def
        split: if_splits sum.splits prod.splits dest: add_sample_tracked_draws)


lemma fixed_window_tracked:
  assumes "fixed_window ext config classes c wav rate a st = Inr st'" and "tracked classes st"
  shows "tracked classes st'"
  using assms
  by (auto simp: fixed_window_def then_do_def split: sum.splits dest: add_sample_tracked_pbar1)


lemma fixed_file_tracked:
  assumes "fixed_file ext config classes df file_index c st = Inr st'" and "tracked classes st"
  shows "tracked classes st'"
proof -
  have "\<And>wav rate t s s'. for_each (fixed_window ext config classes c wav rate) [0..<t] s = Inr s'
          \<Longrightarrow> tracked classes s \<Longrightarrow> tracked classes s'"
    by (erule for_each_invariant) (auto intro: fixed_window_tracked)
  then show ?thesis
    using assms
    by (auto simp: fixed_file_def then_do_def split: if_splits sum.splits prod.splits)
qed


lemma for_each_tracked:
  assumes "for_each body xs s = Inr s'" and "tracked classes s"
    and "\<And>x t t'. body x t = Inr t' \<Longrightarrow> tracked classes t \<Longrightarrow> tracked classes t'"
  shows "tracked classes s'"
  by (rule for_each_invariant [where P = "tracked classes", OF assms(1,2)]) (rule assms(3))

lemma random_loop_tracked:
  assumes "for_each (\<lambda>round. for_each (random_sample ext config classes df) classes) rounds s
             = Inr s'"
    and "tracked classes s"
  shows "tracked classes s'"
  using assms
proof (rule for_each_tracked)
  fix x t t'
  assume "for_each (random_sample ext config classes df) classes t = Inr t'" "tracked classes t"
  then show "tracked classes t'"
    by (rule for_each_tracked) (rule random_sample_tracked)
qed

lemma fixed_loop_tracked:
  assumes "for_each (\<lambda>file_index. for_each (fixed_file ext config classes df file_index) classes)
             indices s = Inr s'"
    and "tracked classes s"
  shows "tracked classes s'"
  using assms
proof (rule for_each_tracked)
  fix x t t'
  assume "for_each (fixed_file ext config classes df x) classes t = Inr t'" "tracked classes t"
  then show "tracked classes t'"
    by (rule for_each_tracked) (rule fixed_file_tracked)
qed



lemma tracked_new_builder: "tracked classes new_builder"
  by (simp add: tracked_def new_builder_def)

lemma finish_result:
  assumes "finish config st = Inr (X, y, config', out)"
  shows "X_acc st \<noteq> []
       \<and> X = normalise (min_acc st) (max_acc st) (X_acc st)
       \<and> config' = config\<lparr>min_attr := min_acc st, max_attr := max_acc st\<rparr>
       \<and> out = printed st
       \<and> (\<exists>n. y = map (one_hot n) (y_acc st) \<and> list_all (\<lambda>i. i < n) (y_acc st))"
proof -
  obtain X0 where X0: "np_array (X_acc st) = Inr X0"
    using assms by (cases "np_array (X_acc st)") (simp_all add: finish_def then_do_def)
  then have ne: "X_acc st \<noteq> []" and eq: "X0 = X_acc st"
    by (auto simp: np_array_def split: list.splits if_splits)
  obtain cat where cat: "getattr (config\<lparr>min_attr := min_acc st, max_attr := max_acc st\<rparr>) ''cat''
      = Inr cat"
    using assms X0
    by (cases "getattr (config\<lparr>min_attr := min_acc st, max_attr := max_acc st\<rparr>) ''cat''")
       (simp_all add: finish_def then_do_def)
  obtain y0 where y0: "to_categorical (y_acc st) cat = Inr y0"
    using assms X0 cat
    by (cases "to_categorical (y_acc st) cat") (simp_all add: finish_def then_do_def)
  have r: "X = normalise (min_acc st) (max_acc st) (X_acc st)" "y = y0"
      "config' = config\<lparr>min_attr := min_acc st, max_attr := max_acc st\<rparr>" "out = printed st"
    using assms X0 cat y0 eq by (simp_all add: finish_def then_do_def)
  from y0 obtain n where "y0 = map (one_hot n) (y_acc st)" "list_all (\<lambda>i. i < n) (y_acc st)"
    unfolding to_categorical_def then_do_Inr by (auto split: if_splits)
  with ne r show ?thesis by blast
qed

lemma tensor_values_normalise:
  "tensor_values (normalise lo hi X)
     = map (\<lambda>v. np_divide (np_subtract (Fin v) lo) (np_subtract hi lo)) (values_of X)"
proof -
  have c: "\<And>g (vs :: rat list). concat (map (\<lambda>v. [g v :: npfloat]) vs) = map g vs"
    by (induct_tac vs) simp_all
  show ?thesis
    unfolding tensor_values_def normalise_def values_of_def
    by (simp add: map_concat [symmetric] c)
qed

lemma normalised_in_unit_interval:
  assumes "lo \<le> v" and "v \<le> hi" and "lo < (hi::rat)"
  shows "0 \<le> (v - lo) / (hi - lo) \<and> (v - lo) / (hi - lo) \<le> 1"
  using assms by simp


lemma getRandomSamples_finish:
  assumes "getRandomSamples ext config classes df datasets = Inr r"
  shows "\<exists>st d. getRefactoredData config datasets = Inr d
           \<and> for_each (\<lambda>round. for_each (random_sample ext config classes df) classes)
                 [0..<nat (py_int (of_int d / 3))] new_builder = Inr st
           \<and> tracked classes st \<and> finish config st = Inr r"
proof -
  from assms obtain d st where d: "getRefactoredData config datasets = Inr d"
    and l: "for_each (\<lambda>round. for_each (random_sample ext config classes df) classes)
                 [0..<nat (py_int (of_int d / 3))] new_builder = Inr st"
    and f: "finish config st = Inr r"
    unfolding getRandomSamples_def then_do_Inr by blast
  from random_loop_tracked [OF l tracked_new_builder] d l f show ?thesis by blast
qed

lemma getFixedSamples_finish:
  assumes "getFixedSamples ext config classes df datasets = Inr r"
  shows "\<exists>st d tv cat p q. getRefactoredData config datasets = Inr d
           \<and> getattr config ''max_tack_samples'' = Inr tv \<and> py_truediv (PInt d) tv = Inr p
           \<and> getattr config ''cat'' = Inr cat \<and> py_truediv (PFloat p) cat = Inr q
           \<and> for_each (\<lambda>file_index. for_each (fixed_file ext config classes df file_index) classes)
                 [0..<nat (py_int q)] new_builder = Inr st
           \<and> tracked classes st \<and> finish config st = Inr r"
proof -
  from assms obtain d tv cat p q st where d: "getRefactoredData config datasets = Inr d"
    "getattr config ''max_tack_samples'' = Inr tv" "py_truediv (PInt d) tv = Inr p"
    "getattr config ''cat'' = Inr cat" "py_truediv (PFloat p) cat = Inr q"
    and l: "for_each (\<lambda>file_index. for_each (fixed_file ext config classes df file_index) classes)
                 [0..<nat (py_int q)] new_builder = Inr st"
    and f: "finish config st = Inr r"
    unfolding getFixedSamples_def then_do_Inr by blast
  from fixed_loop_tracked [OF l tracked_new_builder] d l f show ?thesis by blast
qed

lemma finish_normalised:
  assumes f: "finish config st = Inr (X, y, config', out)" and t: "tracked classes st"
  shows "\<exists>raw lo hi. values_of raw \<noteq> []
      \<and> lo = Min (set (values_of raw)) \<and> hi = Max (set (values_of raw))
      \<and> min_attr config' = Fin lo \<and> max_attr config' = Fin hi
      \<and> X = map (map (map (\<lambda>x. [np_divide (Fin (x - lo)) (Fin (hi - lo))]))) raw
      \<and> (lo < hi \<longrightarrow> list_all (\<lambda>v. \<exists>q. v = Fin q \<and> 0 \<le> q \<and> q \<le> 1) (tensor_values X))
      \<and> (lo = hi \<longrightarrow> list_all (\<lambda>v. v = NaN) (tensor_values X))"
proof -
  define raw where "raw = X_acc st"
  define lo where "lo = Min (set (values_of raw))"
  define hi where "hi = Max (set (values_of raw))"
  from finish_result [OF f] have ne: "raw \<noteq> []"
    and X: "X = normalise (min_acc st) (max_acc st) raw"
    and c: "config' = config\<lparr>min_attr := min_acc st, max_attr := max_acc st\<rparr>"
    by (simp_all add: raw_def)
  from t ne have acc: "min_acc st = Fin lo" "max_acc st = Fin hi"
    and all: "list_all (\<lambda>m. concat m \<noteq> []) raw"
    by (simp_all add: tracked_def raw_def lo_def hi_def)
  have v: "values_of raw \<noteq> []"
    using ne all by (rule values_of_nonempty)
  have bounds: "lo \<le> x \<and> x \<le> hi" if "x \<in> set (values_of raw)" for x
    using that by (simp add: lo_def hi_def)
  have X': "X = map (map (map (\<lambda>x. [np_divide (Fin (x - lo)) (Fin (hi - lo))]))) raw"
    unfolding X acc by (simp add: normalise_def np_subtract_def)
  have tv: "tensor_values X = map (\<lambda>x. np_divide (Fin (x - lo)) (Fin (hi - lo))) (values_of raw)"
    unfolding X acc tensor_values_normalise by (simp add: np_subtract_def)
  have in01: "list_all (\<lambda>v. \<exists>q. v = Fin q \<and> 0 \<le> q \<and> q \<le> 1) (tensor_values X)" if "lo < hi"
    unfolding tv list_all_iff using that bounds by (auto simp: normalised_in_unit_interval)
  have nan: "list_all (\<lambda>v. v = NaN) (tensor_values X)" if "lo = hi"
  proof -
    have "x = lo" if "x \<in> set (values_of raw)" for x
      using bounds [OF that] \<open>lo = hi\<close> by simp
    then show ?thesis
      unfolding tv list_all_iff using \<open>lo = hi\<close> by simp
  qed
  show ?thesis
    using v lo_def hi_def acc c X' in01 nan
    by (intro exI [of _ raw] exI [of _ lo] exI [of _ hi]) simp
qed



lemma labels_of_tracked:
  assumes "tracked classes st"
  shows "list_all (\<lambda>row. \<exists>i<length classes. row = one_hot k i) (map (one_hot k) (y_acc st))"
  using assms by (auto simp: tracked_def list_all_iff)





section \<open>SampleBuilder: inputs on which the builders return\<close>


















section \<open>Example runs\<close>

text \<open>The builders evaluated on the small corpus.\<close>

lemma example_fixed_6_values:
  "map_sum id (\<lambda>(X, y, config', out). (X, y, min_attr config', max_attr config', out))
     (getFixedSamples example_ext example_sampling_config example_classes example_df (PInt 6))
   = Inr ([[[[Fin (1 / 3)], [Fin 0]]], [[[Fin 0], [Fin (1 / 2)]]],
           [[[Fin (1 / 6)], [Fin 1]]], [[[Fin 1], [Fin 0]]]],
          [[1, 0], [1, 0], [0, 1], [0, 1]], Fin 1, Fin 7, [])"
  by code_simp

lemma example_fixed_6:
  "\<exists>config'.
     getFixedSamples example_ext example_sampling_config example_classes example_df (PInt 6)
       = Inr ([[[[Fin (1 / 3)], [Fin 0]]], [[[Fin 0], [Fin (1 / 2)]]],
               [[[Fin (1 / 6)], [Fin 1]]], [[[Fin 1], [Fin 0]]]],
              [[1, 0], [1, 0], [0, 1], [0, 1]], config', [])
     \<and> min_attr config' = Fin 1 \<and> max_attr config' = Fin 7"
  using example_fixed_6_values
  by (cases "getFixedSamples example_ext example_sampling_config example_classes example_df
               (PInt 6)") auto





section \<open>SampleBuilder: normalisation\<close>

text \<open>
  C5 as stated fails: nothing guards the division.  With one class, one file, one window
  and a feature matrix of a single value, minimum and maximum are both 9, the divisor
  \<open>max - min\<close> is 0, and the one normalised value is \<open>0 / 0\<close>, NaN, which is not in
  \<open>[0, 1]\<close>.  The call returns normally.
\<close>

theorem normalization_counterexample:
  "map_sum id (\<lambda>(X, y, config', out). (X, min_attr config', max_attr config'))
     (getFixedSamples example_ext_one_value example_single_config [''blues'']
        [(''b1.wav'', ''blues'')] (PInt 1))
   = Inr ([[[[NaN]]]], Fin 9, Fin 9)"
  by code_simp

text \<open>
  C5, amended.  When \<^verbatim>\<open>getRandomSamples\<close> or \<^verbatim>\<open>getFixedSamples\<close> returns, the minimum
  and the maximum stored on the configuration are those of all raw feature values of
  the build, every value \<open>x\<close> has become \<open>(x - min) / (max - min)\<close>, and every normalised
  value lies in \<open>[0, 1]\<close> when \<open>min < max\<close>.  There is no guard: when all raw values
  are equal, \<open>max = min\<close> and every normalised value is NaN.
\<close>

theorem normalization_over_all_samples:
  assumes "getRandomSamples ext config classes df datasets = Inr (X, y, config', out)
         \<or> getFixedSamples ext config classes df datasets = Inr (X, y, config', out)"
  shows "\<exists>raw lo hi. values_of raw \<noteq> []
      \<and> lo = Min (set (values_of raw)) \<and> hi = Max (set (values_of raw))
      \<and> min_attr config' = Fin lo \<and> max_attr config' = Fin hi
      \<and> X = map (map (map (\<lambda>x. [np_divide (Fin (x - lo)) (Fin (hi - lo))]))) raw
      \<and> (lo < hi \<longrightarrow> list_all (\<lambda>v. \<exists>q. v = Fin q \<and> 0 \<le> q \<and> q \<le> 1) (tensor_values X))
      \<and> (lo = hi \<longrightarrow> list_all (\<lambda>v. v = NaN) (tensor_values X))"
proof -
  from assms obtain st where "tracked classes st" "finish config st = Inr (X, y, config', out)"
    using getRandomSamples_finish getFixedSamples_finish by blast
  then show ?thesis
    by (rule finish_normalised [rotated])
qed

theorem normalization_over_all_samples_witness:
  "\<exists>X y config' out.
     getFixedSamples example_ext example_sampling_config example_classes example_df (PInt 6)
       = Inr (X, y, config', out)
     \<and> min_attr config' = Fin 1 \<and> max_attr config' = Fin 7
     \<and> X = [[[[Fin (1 / 3)], [Fin 0]]], [[[Fin 0], [Fin (1 / 2)]]],
            [[[Fin (1 / 6)], [Fin 1]]], [[[Fin 1], [Fin 0]]]]
     \<and> list_all (\<lambda>v. \<exists>q. v = Fin q \<and> 0 \<le> q \<and> q \<le> 1) (tensor_values X)"
proof -
  let ?call = "getFixedSamples example_ext example_sampling_config example_classes example_df
                 (PInt 6)"
  from example_fixed_6 obtain X y config' out where r: "?call = Inr (X, y, config', out)"
    and v: "X = [[[[Fin (1 / 3)], [Fin 0]]], [[[Fin 0], [Fin (1 / 2)]]],
                 [[[Fin (1 / 6)], [Fin 1]]], [[[Fin 1], [Fin 0]]]]"
       "min_attr config' = Fin 1" "max_attr config' = Fin 7"
    by blast
  from normalization_over_all_samples [OF disjI2, OF r] v(2,3)
  have "list_all (\<lambda>v. \<exists>q. v = Fin q \<and> 0 \<le> q \<and> q \<le> 1) (tensor_values X)"
    by auto
  with r v show ?thesis by blast
qed

section \<open>SampleBuilder: the number of samples\<close>




section \<open>PredictionRunner: what \<^verbatim>\<open>buildPredctions\<close> returns\<close>

lemma np_mean_row:
  assumes "ps \<noteq> []"
  shows "np_mean [map Fin ps] = Fin (sum_list ps / of_nat (length ps))"
proof -
  have "fold (\<lambda>v s. np_add s v) (map Fin ps) (Fin a) = Fin (a + sum_list ps)" for a
    by (induction ps arbitrary: a) (simp_all add: add.assoc)
  then show ?thesis
    using assms by (simp add: np_mean_def)
qed

text \<open>
  C7 as stated fails.  On the small corpus with a classifier that answers
  \<open>[1/4, 3/4]\<close>, the first returned sequence holds the one-hot rows built by
  \<^verbatim>\<open>to_categorical\<close> (not the label indices 0, 0, 1, 1), and the third holds the
  normalised feature tensors that were fed to the classifier: flattened, its items are
  \<open>[1/3, 0]\<close>, \<open>[0, 1/2]\<close>, ..., while every probability vector is \<open>[1/4, 3/4]\<close>.
  The probability vectors are not returned.
\<close>

theorem buildPredctions_counterexample:
  "buildPredctions example_ext example_model example_sampling_config example_classes example_df
     (PInt 6)
   = Inr ([[1, 0], [1, 0], [0, 1], [0, 1]],
          [Fin (1 / 2), Fin (1 / 2), Fin (1 / 2), Fin (1 / 2)],
          [[[[Fin (1 / 3)], [Fin 0]]], [[[Fin 0], [Fin (1 / 2)]]],
           [[[Fin (1 / 6)], [Fin 1]]], [[[Fin 1], [Fin 0]]]])
   \<and> map (\<lambda>x. concat (example_model [x]))
         [[[[Fin (1 / 3)], [Fin 0]]], [[[Fin 0], [Fin (1 / 2)]]],
          [[[Fin (1 / 6)], [Fin 1]]], [[[Fin 1], [Fin 0]]]]
       = [[Fin (1 / 4), Fin (3 / 4)], [Fin (1 / 4), Fin (3 / 4)],
          [Fin (1 / 4), Fin (3 / 4)], [Fin (1 / 4), Fin (3 / 4)]]
   \<and> map (\<lambda>x. concat (concat x))
         [[[[Fin (1 / 3)], [Fin 0]]], [[[Fin 0], [Fin (1 / 2)]]],
          [[[Fin (1 / 6)], [Fin 1]]], [[[Fin 1], [Fin 0]]]]
       \<noteq> [[Fin (1 / 4), Fin (3 / 4)], [Fin (1 / 4), Fin (3 / 4)],
          [Fin (1 / 4), Fin (3 / 4)], [Fin (1 / 4), Fin (3 / 4)]]"
  using example_fixed_6
  by (auto simp: buildPredctions_def then_do_def example_model_def np_mean_def)

text \<open>
  C7, amended.  When \<^verbatim>\<open>buildPredctions\<close> returns, it has built fixed-mode samples; the
  three returned sequences have one entry per sample: the one-hot label rows of
  \<^verbatim>\<open>getFixedSamples\<close>, the reduced prediction values, and the normalised feature
  tensors of \<^verbatim>\<open>getFixedSamples\<close>.  The prediction value of a sample is the mean over all
  entries of the classifier's answer to the batch holding that one sample; for an
  answer of finite probabilities \<open>ps\<close> this is \<open>sum ps / length ps\<close>.
\<close>

theorem buildPredctions_returns:
  assumes "buildPredctions ext model_predict config classes df datasets
             = Inr (y_true, y_pred, y_prob)"
  shows "(\<exists>config' out.
            getFixedSamples ext config classes df datasets = Inr (y_prob, y_true, config', out))
       \<and> length y_true = length y_prob \<and> length y_pred = length y_prob
       \<and> (\<forall>i<length y_prob. y_pred ! i = np_mean (model_predict [y_prob ! i]))
       \<and> list_all (\<lambda>row. \<exists>i<length classes. \<exists>k. row = one_hot k i) y_true
       \<and> (\<forall>ps. ps \<noteq> [] \<longrightarrow> np_mean [map Fin ps] = Fin (sum_list ps / of_nat (length ps)))"
proof -
  obtain r where r: "getFixedSamples ext config classes df datasets = Inr r"
    using assms
    by (cases "getFixedSamples ext config classes df datasets")
       (simp_all add: buildPredctions_def then_do_def)
  obtain X y config' out where r': "r = (X, y, config', out)"
    by (cases r)
  have e: "y_true = y" "y_pred = map (\<lambda>x. np_mean (model_predict [x])) X" "y_prob = X"
    using assms r r' by (auto simp: buildPredctions_def then_do_def)
  from getFixedSamples_finish [OF r] obtain st where
    t: "tracked classes st" and f: "finish config st = Inr (X, y, config', out)"
    unfolding r' by blast
  from finish_result [OF f] obtain k where
    X: "X = normalise (min_acc st) (max_acc st) (X_acc st)" and y: "y = map (one_hot k) (y_acc st)"
    by blast
  have len: "length y = length X"
    using t by (simp add: X y normalise_def tracked_def)
  have rows: "list_all (\<lambda>row. \<exists>i<length classes. \<exists>k. row = one_hot k i) y"
    using labels_of_tracked [OF t, of k] unfolding y list_all_iff by blast
  have 1: "\<exists>config' out.
            getFixedSamples ext config classes df datasets = Inr (y_prob, y_true, config', out)"
    using r r' e by blast
  show ?thesis
    using 1 len rows by (simp add: e np_mean_row)
qed

theorem buildPredctions_returns_witness:
  "buildPredctions example_ext example_model example_sampling_config example_classes example_df
     (PInt 6)
   = Inr ([[1, 0], [1, 0], [0, 1], [0, 1]],
          [Fin (1 / 2), Fin (1 / 2), Fin (1 / 2), Fin (1 / 2)],
          [[[[Fin (1 / 3)], [Fin 0]]], [[[Fin 0], [Fin (1 / 2)]]],
           [[[Fin (1 / 6)], [Fin 1]]], [[[Fin 1], [Fin 0]]]])
   \<and> (\<exists>config' out.
        getFixedSamples example_ext example_sampling_config example_classes example_df (PInt 6)
        = Inr ([[[[Fin (1 / 3)], [Fin 0]]], [[[Fin 0], [Fin (1 / 2)]]],
                [[[Fin (1 / 6)], [Fin 1]]], [[[Fin 1], [Fin 0]]]],
               [[1, 0], [1, 0], [0, 1], [0, 1]], config', out))
   \<and> np_mean [map Fin [1 / 4, 3 / 4]] = Fin (1 / 2)"
proof -
  have b: "buildPredctions example_ext example_model example_sampling_config example_classes
      example_df (PInt 6)
   = Inr ([[1, 0], [1, 0], [0, 1], [0, 1]],
          [Fin (1 / 2), Fin (1 / 2), Fin (1 / 2), Fin (1 / 2)],
          [[[[Fin (1 / 3)], [Fin 0]]], [[[Fin 0], [Fin (1 / 2)]]],
           [[[Fin (1 / 6)], [Fin 1]]], [[[Fin 1], [Fin 0]]]])"
    using example_fixed_6
    by (auto simp: buildPredctions_def then_do_def example_model_def np_mean_def)
  note t = buildPredctions_returns [OF b]
  have "np_mean [map Fin [1 / 4, 3 / 4]] = Fin (sum_list [1 / 4, 3 / 4] / of_nat (length [1 / 4, 3 / 4 :: rat]))"
    using t by blast
  then have "np_mean [map Fin [1 / 4, 3 / 4]] = Fin (1 / 2)"
    by simp
  with b t show ?thesis by blast
qed

section \<open>Training: the validation data of \<^verbatim>\<open>fitModel\<close>\<close>

lemma zip_map_nth:
  assumes "length a = length b"
  shows "map (\<lambda>i. (a ! i, b ! i)) [0..<length a] = zip a b"
  using assms by (intro nth_equalityI) simp_all

lemma zip_maps: "zip (map f p) (map g p) = map (\<lambda>i. (f i, g i)) p"
  by (induction p) simp_all

lemma shuffle_same_rows:
  assumes "shuffle k a b = Inr (a', b')"
    and "mset (shuffle_order k (length a)) = mset [0..<length a]"
  shows "mset (zip a' b') = mset (zip a b)"
proof -
  let ?p = "shuffle_order k (length a)"
  from assms(1) have len: "length a = length b"
    and a': "a' = map ((!) a) ?p" and b': "b' = map ((!) b) ?p"
    by (auto simp: shuffle_def split: if_splits)
  have "zip a' b' = map (\<lambda>i. (a ! i, b ! i)) ?p"
    unfolding a' b' by (rule zip_maps)
  then have "mset (zip a' b') = image_mset (\<lambda>i. (a ! i, b ! i)) (mset ?p)"
    by simp
  also have "\<dots> = image_mset (\<lambda>i. (a ! i, b ! i)) (mset [0..<length a])"
    by (simp only: assms(2))
  also have "\<dots> = mset (map (\<lambda>i. (a ! i, b ! i)) [0..<length a])"
    by simp
  also have "\<dots> = mset (zip a b)"
    by (simp only: zip_map_nth [OF len])
  finally show ?thesis .
qed

lemma fit_call_trace:
  assumes "fit_call k config index st = Inr st'"
  shows "\<exists>X y val_X val_y rest.
           shuffle k X y = Inr (val_X, val_y)
         \<and> trace st' = trace st @ [DrawStatistics (temps st), ModelFit X y val_X val_y] @ rest
         \<and> list_all (validates_on_training k) rest"
proof -
  obtain X y where s1: "shuffle k (X_now st) (y_now st) = Inr (X, y)"
    using assms by (cases "shuffle k (X_now st) (y_now st)") (auto simp: fit_call_def then_do_def)
  obtain val_X val_y where s2: "shuffle k X y = Inr (val_X, val_y)"
    using assms s1 by (cases "shuffle k X y") (auto simp: fit_call_def then_do_def)
  obtain epochs where e: "getattr config ''epochs'' = Inr epochs"
    using assms s1 s2 by (cases "getattr config ''epochs''") (auto simp: fit_call_def then_do_def)
  obtain batch where b: "getattr config ''batch_size'' = Inr batch"
    using assms s1 s2 e
    by (cases "getattr config ''batch_size''") (auto simp: fit_call_def then_do_def)
  obtain ue where u: "getattr config ''use_evaluate'' = Inr ue"
    using assms s1 s2 e b
    by (cases "getattr config ''use_evaluate''")
       (auto simp: fit_call_def then_do_def split: prod.splits)
  have "trace st' = trace st @ [DrawStatistics (temps st), ModelFit X y val_X val_y]
          @ ((if ue = PBool True then [ModelEvaluate X y] else []) @ [ModelSave, SaveConfig])"
    using assms s1 s2 e b u by (auto simp: fit_call_def then_do_def split: prod.splits)
  moreover have "list_all (validates_on_training k)
      ((if ue = PBool True then [ModelEvaluate X y] else []) @ [ModelSave, SaveConfig])"
    by simp
  ultimately show ?thesis
    using s2 by blast
qed

lemma fit_call_validates:
  assumes "fit_call k config index st = Inr st'"
    and "\<forall>n. mset (shuffle_order k n) = mset [0..<n]"
    and "list_all (validates_on_training k) (trace st)"
  shows "list_all (validates_on_training k) (trace st')"
proof -
  from fit_call_trace [OF assms(1)] obtain X y val_X val_y rest where
    s: "shuffle k X y = Inr (val_X, val_y)"
    and t: "trace st' = trace st @ [DrawStatistics (temps st), ModelFit X y val_X val_y] @ rest"
    and r: "list_all (validates_on_training k) rest"
    by blast
  have "mset (zip val_X val_y) = mset (zip X y)"
    by (rule shuffle_same_rows [OF s]) (rule assms(2) [rule_format])
  with s assms(3) r show ?thesis
    unfolding t by simp
qed

lemma fit_call_ignores_validation:
  "fit_call k config index (st\<lparr>val_X_now := a, val_y_now := b\<rparr>) = fit_call k config index st"
  by (simp add: fit_call_def then_do_def split: sum.splits prod.splits)

lemma training_loop_ignores_validation:
  "then_do (for_each (fit_call k config) xs (st\<lparr>val_X_now := a, val_y_now := b\<rparr>))
     (\<lambda>st. Inr (model_now st, temps st, trace st))
   = then_do (for_each (fit_call k config) xs st) (\<lambda>st. Inr (model_now st, temps st, trace st))"
  by (cases xs) (simp_all add: then_do_def fit_call_ignores_validation)

text \<open>
  C10.  The result of \<^verbatim>\<open>fitModel\<close> does not depend on its arguments \<^verbatim>\<open>val_X\<close> and
  \<^verbatim>\<open>val_y\<close>: the loop overwrites them before it reads them.  In every iteration the
  validation data passed to \<^verbatim>\<open>model.fit\<close> is \<^verbatim>\<open>shuffle(X, y, random_state=0)\<close> of the
  training data passed to the same call, hence (the shuffle being a permutation of the
  rows) it holds exactly the rows of the training data with their labels.
\<close>

theorem fitModel_validates_on_training_data:
  assumes "\<forall>n. mset (shuffle_order k n) = mset [0..<n]"
  shows "fitModel k config curves files expected model X y val_X val_y
           = fitModel k config curves files expected model X y val_X' val_y'
       \<and> (\<forall>m h tr. fitModel k config curves files expected model X y val_X val_y = Inr (m, h, tr)
            \<longrightarrow> list_all (validates_on_training k) tr)"
proof -
  have ignore: "fitModel k config curves files expected model X y val_X val_y
           = fitModel k config curves files expected model X y a b" for a b
  proof -
    have "\<lparr>model_now = m, X_now = X, y_now = y, val_X_now = a, val_y_now = b, temps = h,
            trace = []\<rparr>
        = \<lparr>model_now = m, X_now = X, y_now = y, val_X_now = val_X, val_y_now = val_y, temps = h,
            trace = ([] :: ('b, 'c) call list)\<rparr>\<lparr>val_X_now := a, val_y_now := b\<rparr>" for m :: 'a and h
      by simp
    then show ?thesis
      unfolding fitModel_def Let_def
      by (simp only: training_loop_ignores_validation)
  qed
  have valid: "list_all (validates_on_training k) tr"
    if "fitModel k config curves files expected model X y val_X val_y = Inr (m, h, tr)" for m h tr
  proof -
    from that obtain st0 xs st where
      l: "for_each (fit_call k config) xs st0 = Inr st" and t0: "trace st0 = []" and t: "tr = trace st"
      unfolding fitModel_def Let_def then_do_Inr by auto
    have "list_all (validates_on_training k) (trace st)"
      using l
    proof (rule for_each_invariant)
      show "list_all (validates_on_training k) (trace st0)"
        by (simp add: t0)
    next
      fix x u u'
      assume "list_all (validates_on_training k) (trace u)" "fit_call k config x u = Inr u'"
      then show "list_all (validates_on_training k) (trace u')"
        using fit_call_validates assms by blast
    qed
    then show ?thesis by (simp add: t)
  qed
  from ignore valid show ?thesis by blast
qed

theorem fitModel_validates_on_training_data_witness:
  "fitModel example_keras example_training_config None [] ''7.model'' 0
      [10, 20, 30] [0, 1, 1] [99] [9]
    = fitModel example_keras example_training_config None [] ''7.model'' 0
      [10, 20, 30] [0, 1, 1] [] []
   \<and> fitModel example_keras example_training_config None [] ''7.model'' 0
      [10, 20, 30] [0, 1, 1] [99] [9]
    = Inr (2,
        \<lparr>acc_temp = [1 / 2, 1 / 2], val_acc_temp = [1 / 2, 1 / 2], loss_temp = [1, 1],
           val_loss_temp = [1, 1]\<rparr>,
        [DrawStatistics \<lparr>acc_temp = [], val_acc_temp = [], loss_temp = [], val_loss_temp = []\<rparr>,
         ModelFit [30, 20, 10] [1, 1, 0] [10, 20, 30] [0, 1, 1], ModelSave, SaveConfig,
         DrawStatistics \<lparr>acc_temp = [1 / 2], val_acc_temp = [1 / 2], loss_temp = [1],
           val_loss_temp = [1]\<rparr>,
         ModelFit [10, 20, 30] [0, 1, 1] [30, 20, 10] [1, 1, 0], ModelSave, SaveConfig])
   \<and> validates_on_training example_keras (ModelFit [30, 20, 10] [1, 1, 0] [10, 20, 30] [0, 1, 1])
   \<and> validates_on_training example_keras (ModelFit [10, 20, 30] [0, 1, 1] [30, 20, 10] [1, 1, 0])"
proof -
  have p: "\<forall>n. mset (shuffle_order example_keras n) = mset [0..<n]"
    by (simp add: example_keras_def)
  have r: "fitModel example_keras example_training_config None [] ''7.model'' 0
      [10, 20, 30] [0, 1, 1] [99] [9]
    = Inr (2,
        \<lparr>acc_temp = [1 / 2, 1 / 2], val_acc_temp = [1 / 2, 1 / 2], loss_temp = [1, 1],
           val_loss_temp = [1, 1]\<rparr>,
        [DrawStatistics \<lparr>acc_temp = [], val_acc_temp = [], loss_temp = [], val_loss_temp = []\<rparr>,
         ModelFit [30, 20, 10] [1, 1, 0] [10, 20, 30] [0, 1, 1], ModelSave, SaveConfig,
         DrawStatistics \<lparr>acc_temp = [1 / 2], val_acc_temp = [1 / 2], loss_temp = [1],
           val_loss_temp = [1]\<rparr>,
         ModelFit [10, 20, 30] [0, 1, 1] [30, 20, 10] [1, 1, 0], ModelSave, SaveConfig])"
    by code_simp
  note t = fitModel_validates_on_training_data [OF p, of example_training_config None "[]"
      "''7.model''" 0 "[10, 20, 30]" "[0, 1, 1]" "[99]" "[9]" "[]" "[]"]
  from t [THEN conjunct2] r
  have "list_all (validates_on_training example_keras)
        [DrawStatistics \<lparr>acc_temp = [], val_acc_temp = [], loss_temp = [], val_loss_temp = []\<rparr>,
         ModelFit [30, 20, 10] [1, 1, 0] [10, 20, 30] [0, 1, 1], ModelSave, SaveConfig,
         DrawStatistics \<lparr>acc_temp = [1 / 2], val_acc_temp = [1 / 2], loss_temp = [1],
           val_loss_temp = [1]\<rparr>,
         ModelFit [10, 20, 30] [0, 1, 1] [30, 20, 10] [1, 1, 0], ModelSave, SaveConfig]"
    by blast
  then have "validates_on_training example_keras
               (ModelFit [30, 20, 10] [1, 1, 0] [10, 20, 30] [0, 1, 1])
           \<and> validates_on_training example_keras
               (ModelFit [10, 20, 30] [0, 1, 1] [30, 20, 10] [1, 1, 0])"
    by (simp del: validates_on_training.simps)
  with t [THEN conjunct1] r show ?thesis
    by (simp only: simp_thms)
qed

end
